theory Spec2Isabelle
  imports Main "HOL-Library.Word"
begin

unbundle bit_operations_syntax

section \<open>Values shared by every module\<close>

text \<open>
  A Python \<^verbatim>\<open>bytes\<close> object is a list of 8-bit words; a \<^verbatim>\<open>str\<close> is a \<^typ>\<open>string\<close>.
  Python integers are unbounded, hence \<^typ>\<open>int\<close>.
\<close>

type_synonym byte = "8 word"

text \<open>
  The exceptions the modelled code can see. A function that can raise returns either
  \<open>exn + 'a\<close> (when it changes no state) or a pair of \<open>exn option\<close> and the state it
  leaves behind (\<open>None\<close>: it returned normally), because in Python the mutations made
  before a \<^verbatim>\<open>raise\<close> stay.

  \<^item> \<open>BinasciiError\<close>: \<^verbatim>\<open>binascii.Error\<close>, a subclass of \<^verbatim>\<open>ValueError\<close>;
  \<^item> \<open>NonAsciiError\<close>: the \<^verbatim>\<open>ValueError\<close> of \<^verbatim>\<open>base64.b64decode\<close> on a non-ASCII \<^verbatim>\<open>str\<close>;
  \<^item> \<open>UnsupportedEncoding e\<close>: \<^verbatim>\<open>ValueError(f"Unsupported audio encoding: {e}")\<close>;
  \<^item> \<open>AudioopError\<close>: \<^verbatim>\<open>audioop.error\<close>;
  \<^item> \<open>ConnectionClosed\<close>: \<^verbatim>\<open>websockets.ConnectionClosed\<close>;
  \<^item> \<open>CancelledError\<close>: \<^verbatim>\<open>asyncio.CancelledError\<close>, which derives from
    \<^verbatim>\<open>BaseException\<close> and so escapes every \<^verbatim>\<open>except Exception\<close>.
\<close>

datatype exn =
    BinasciiError
  | NonAsciiError
  | UnsupportedEncoding string
  | AudioopError
  | ConnectionClosed
  | TypeError
  | AttributeError
  | RuntimeError
  | CancelledError

fun is_ValueError :: "exn \<Rightarrow> bool" where
  "is_ValueError BinasciiError = True"
| "is_ValueError NonAsciiError = True"
| "is_ValueError (UnsupportedEncoding e) = True"
| "is_ValueError x = False"

fun is_Exception :: "exn \<Rightarrow> bool" where
  "is_Exception CancelledError = False"
| "is_Exception x = True"


section \<open>Standard library: base64\<close>

text \<open>
  \<^verbatim>\<open>base64.b64encode\<close> and \<^verbatim>\<open>base64.b64decode\<close> belong to the Python standard library,
  not to the repository. They are modelled after CPython 3.10 to 3.12
  (\<^verbatim>\<open>binascii.b2a_base64\<close> and the non-strict \<^verbatim>\<open>binascii.a2b_base64\<close>), the versions the
  repository can run on (it needs \<^verbatim>\<open>X | Y\<close> type unions and the \<^verbatim>\<open>audioop\<close> module).
\<close>

definition b64_alphabet :: string where
  "b64_alphabet = ''ABCDEFGHIJKLMNOPQRSTUVWXYZabcdefghijklmnopqrstuvwxyz0123456789+/''"

definition b64_char :: "nat \<Rightarrow> char" where
  "b64_char n = b64_alphabet ! n"

fun index_of :: "'a \<Rightarrow> 'a list \<Rightarrow> nat option" where
  "index_of x [] = None"
| "index_of x (y # ys) =
     (if x = y then Some 0 else (case index_of x ys of None \<Rightarrow> None | Some i \<Rightarrow> Some (Suc i)))"

text \<open>\<^verbatim>\<open>table_a2b_base64\<close>: the 6-bit value of an alphabet character, nothing for any other.\<close>

definition b64_index :: "char \<Rightarrow> nat option" where
  "b64_index c = index_of c b64_alphabet"

fun b2a_base64 :: "byte list \<Rightarrow> string" where
  "b2a_base64 [] = []"
| "b2a_base64 [a] =
     [b64_char (unat a div 4), b64_char ((unat a mod 4) * 16), CHR ''='', CHR ''='']"
| "b2a_base64 [a, b] =
     [b64_char (unat a div 4), b64_char ((unat a mod 4) * 16 + unat b div 16),
      b64_char ((unat b mod 16) * 4), CHR ''='']"
| "b2a_base64 (a # b # c # rest) =
     [b64_char (unat a div 4), b64_char ((unat a mod 4) * 16 + unat b div 16),
      b64_char ((unat b mod 16) * 4 + unat c div 64), b64_char (unat c mod 64)]
     @ b2a_base64 rest"

definition b64encode :: "byte list \<Rightarrow> string" where
  "b64encode bs = b2a_base64 bs"

text \<open>
  The decoding loop of \<^verbatim>\<open>a2b_base64\<close>: \<open>quad_pos\<close> counts the data characters of the
  current group of four, \<open>leftchar\<close> holds the bits not yet written, \<open>pads\<close> the \<^verbatim>\<open>=\<close>
  seen in a row. A character outside the alphabet is skipped; padding that completes a
  group ends the decoding; input that ends inside a group raises \<^verbatim>\<open>binascii.Error\<close>.
\<close>

fun a2b_base64 :: "string \<Rightarrow> nat \<Rightarrow> nat \<Rightarrow> nat \<Rightarrow> byte list \<Rightarrow> exn + byte list" where
  "a2b_base64 [] quad_pos leftchar pads out =
     (if quad_pos \<noteq> 0 then Inl BinasciiError else Inr out)"
| "a2b_base64 (c # cs) quad_pos leftchar pads out =
     (if c = CHR ''='' then
        (if 2 \<le> quad_pos \<and> 4 \<le> quad_pos + (pads + 1) then Inr out
         else a2b_base64 cs quad_pos leftchar (if 2 \<le> quad_pos then pads + 1 else pads) out)
      else
        (case b64_index c of
           None \<Rightarrow> a2b_base64 cs quad_pos leftchar pads out
         | Some v \<Rightarrow>
             (if quad_pos = 0 then a2b_base64 cs 1 v 0 out
              else if quad_pos = 1 then
                a2b_base64 cs 2 (v mod 16) 0 (out @ [of_nat (leftchar * 4 + v div 16)])
              else if quad_pos = 2 then
                a2b_base64 cs 3 (v mod 4) 0 (out @ [of_nat (leftchar * 16 + v div 4)])
              else a2b_base64 cs 0 0 0 (out @ [of_nat (leftchar * 64 + v)]))))"

definition is_ascii :: "char \<Rightarrow> bool" where
  "is_ascii c = (of_char c < (128 :: nat))"

definition b64decode :: "string \<Rightarrow> exn + byte list" where
  "b64decode s =
     (if \<not> list_all is_ascii s then Inl NonAsciiError else a2b_base64 s 0 0 0 [])"


section \<open>Standard library: audioop (G.711)\<close>

text \<open>
  \<^verbatim>\<open>audioop.ulaw2lin\<close>, \<^verbatim>\<open>audioop.alaw2lin\<close> and \<^verbatim>\<open>audioop.lin2ulaw\<close> belong to the Python
  standard library. They are modelled after CPython's \<^verbatim>\<open>audioop.c\<close> for a sample width of
  2 bytes, the only width the repository passes: the two decoding tables by the G.711
  formulas that generated them, the encoder \<^verbatim>\<open>st_14linear2ulaw\<close> with its segment search.
  Shifts and masks are written as multiplications, divisions and remainders. In the
  encoder the code word \<^verbatim>\<open>(seg << 4) | q\<close> is \<open>seg * 16 + q\<close> (as \<open>q < 16\<close>), and
  \<^verbatim>\<open>uval ^ mask\<close> is \<open>mask - uval\<close> (the mask is \<^verbatim>\<open>0x7F\<close> or \<^verbatim>\<open>0xFF\<close> and \<open>uval \<le> 0x7F\<close>).
  Samples are stored in the machine's byte order, taken to be little-endian.
\<close>

definition le16 :: "int \<Rightarrow> byte list" where
  "le16 v = [of_int v, of_int (v div 256)]"

fun samples16 :: "byte list \<Rightarrow> int list" where
  "samples16 (lo # hi # rest) =
     (let v = uint lo + 256 * uint hi in (if 32768 \<le> v then v - 65536 else v)) # samples16 rest"
| "samples16 bs = []"

definition ulaw2linear16 :: "byte \<Rightarrow> int" where
  "ulaw2linear16 u =
     (let u_val = 255 - uint u;
          t = ((u_val mod 16) * 8 + 132) * 2 ^ nat ((u_val div 16) mod 8)
      in if 128 \<le> u_val then 132 - t else t - 132)"

definition alaw2linear16 :: "byte \<Rightarrow> int" where
  "alaw2linear16 a =
     (let a_val = uint (a XOR 85);
          t = (a_val mod 16) * 16;
          seg = (a_val div 16) mod 8;
          t = (if seg = 0 then t + 8
               else if seg = 1 then t + 264
               else (t + 264) * 2 ^ nat (seg - 1))
      in if 128 \<le> a_val then t else - t)"

definition seg_uend :: "int list" where
  "seg_uend = [63, 127, 255, 511, 1023, 2047, 4095, 8191]"

fun search :: "int \<Rightarrow> int list \<Rightarrow> nat" where
  "search val [] = 0"
| "search val (e # tab) = (if val \<le> e then 0 else Suc (search val tab))"

definition linear2ulaw14 :: "int \<Rightarrow> byte" where
  "linear2ulaw14 pcm_val0 =
     (let mask = (if pcm_val0 < 0 then 127 else 255) :: int;
          pcm_val = (if pcm_val0 < 0 then - pcm_val0 else pcm_val0);
          pcm_val = (if 32635 < pcm_val then 32635 else pcm_val);
          pcm_val = pcm_val + 33;
          seg = search pcm_val seg_uend
      in if 8 \<le> seg then of_int (mask - 127)
         else of_int (mask - (int seg * 16 + (pcm_val div 2 ^ (seg + 1)) mod 16)))"

definition ulaw2lin :: "byte list \<Rightarrow> byte list" where
  "ulaw2lin fragment = concat (map (\<lambda>u. le16 (ulaw2linear16 u)) fragment)"

definition alaw2lin :: "byte list \<Rightarrow> byte list" where
  "alaw2lin fragment = concat (map (\<lambda>a. le16 (alaw2linear16 a)) fragment)"

definition lin2ulaw :: "byte list \<Rightarrow> exn + byte list" where
  "lin2ulaw fragment =
     (if length fragment mod 2 \<noteq> 0 then Inl AudioopError
      else Inr (map (\<lambda>s. linear2ulaw14 (s div 4)) (samples16 fragment)))"


section \<open>app/utils/audio.py\<close>

text \<open>
  \<^verbatim>\<open>audioop.ratecv\<close> computes with C doubles, so it is not modelled: the two conversion
  functions take it as the parameter \<open>ratecv\<close>, called with the fragment, the source rate
  and the target rate (width 2, one channel and no state are fixed by the code), and
  returning the converted fragment or the exception it raises.
\<close>

type_synonym ratecv_fun = "byte list \<Rightarrow> int \<Rightarrow> int \<Rightarrow> exn + byte list"

definition decode_by_encoding :: "string \<Rightarrow> byte list \<Rightarrow> exn + byte list" where
  "decode_by_encoding encoding raw_bytes =
     (if encoding = ''audio/x-mulaw'' then Inr (ulaw2lin raw_bytes)
      else if encoding = ''audio/x-alaw'' then Inr (alaw2lin raw_bytes)
      else if encoding \<in> {''audio/x-raw'', ''audio/L16''} then Inr raw_bytes
      else Inl (UnsupportedEncoding encoding))"

definition convert_audio_to_pcm16 ::
  "ratecv_fun \<Rightarrow> string \<Rightarrow> string \<Rightarrow> int \<Rightarrow> int \<Rightarrow> exn + string" where
  "convert_audio_to_pcm16 ratecv media_chunk_b64 encoding source_sample_rate target_sample_rate =
     (case b64decode media_chunk_b64 of
        Inl e \<Rightarrow> Inl e
      | Inr raw_bytes \<Rightarrow>
          (case decode_by_encoding encoding raw_bytes of
             Inl e \<Rightarrow> Inl e
           | Inr pcm16_bytes \<Rightarrow>
               (case (if source_sample_rate \<noteq> target_sample_rate
                      then ratecv pcm16_bytes source_sample_rate target_sample_rate
                      else Inr pcm16_bytes) of
                  Inl e \<Rightarrow> Inl e
                | Inr pcm16_bytes \<Rightarrow> Inr (b64encode pcm16_bytes))))"

definition convert_pcm16_to_mulaw :: "ratecv_fun \<Rightarrow> string \<Rightarrow> int \<Rightarrow> int \<Rightarrow> exn + string" where
  "convert_pcm16_to_mulaw ratecv audio_chunk_b64 source_sample_rate target_sample_rate =
     (case b64decode audio_chunk_b64 of
        Inl e \<Rightarrow> Inl e
      | Inr raw_bytes \<Rightarrow>
          (case (if source_sample_rate \<noteq> target_sample_rate
                 then ratecv raw_bytes source_sample_rate target_sample_rate
                 else Inr raw_bytes) of
             Inl e \<Rightarrow> Inl e
           | Inr raw_bytes \<Rightarrow>
               (case lin2ulaw raw_bytes of
                  Inl e \<Rightarrow> Inl e
                | Inr mulaw_bytes \<Rightarrow> Inr (b64encode mulaw_bytes))))"

section \<open>JSON payloads\<close>

text \<open>
  What \<^verbatim>\<open>json.loads\<close> returns. Numbers are integers here; an object is the list of its
  members, looked up by key as a Python \<^verbatim>\<open>dict\<close> (which holds one value for a key).
\<close>

datatype json =
    JNull
  | JBool bool
  | JNum int
  | JStr string
  | JArr "json list"
  | JObj "(string \<times> json) list"

text \<open>Python's truth value of a JSON value (\<^verbatim>\<open>if x:\<close>).\<close>

fun truthy :: "json \<Rightarrow> bool" where
  "truthy JNull = False"
| "truthy (JBool b) = b"
| "truthy (JNum n) = (n \<noteq> 0)"
| "truthy (JStr s) = (s \<noteq> [])"
| "truthy (JArr xs) = (xs \<noteq> [])"
| "truthy (JObj kvs) = (kvs \<noteq> [])"

text \<open>\<^verbatim>\<open>x.get(key, default)\<close>: only a \<^verbatim>\<open>dict\<close> has the method.\<close>

definition py_get :: "json \<Rightarrow> string \<Rightarrow> json \<Rightarrow> exn + json" where
  "py_get x key dflt =
     (case x of
        JObj kvs \<Rightarrow> Inr (case map_of kvs key of None \<Rightarrow> dflt | Some v \<Rightarrow> v)
      | _ \<Rightarrow> Inl AttributeError)"

fun is_JObj :: "json \<Rightarrow> bool" where
  "is_JObj (JObj kvs) = True"
| "is_JObj x = False"


section \<open>Sockets and tasks\<close>

text \<open>
  A socket is an object of a library. The model keeps what the program hands to it
  (\<open>ws_outbox\<close>, oldest frame first) and lets the environment decide when it fails:
  \<open>ws_sends_left = Some n\<close> says that the connection drops after \<open>n\<close> more frames, so that
  every later send raises; \<open>ws_close_error\<close> is what \<^verbatim>\<open>close()\<close> raises, if anything.
\<close>

record 'm socket =
  ws_outbox :: "'m list"
  ws_sends_left :: "nat option"
  ws_close_error :: "exn option"
  ws_closed :: bool

definition sock_send :: "exn \<Rightarrow> 'm socket \<Rightarrow> 'm \<Rightarrow> exn option \<times> 'm socket" where
  "sock_send err ws m =
     (if ws_closed ws \<or> ws_sends_left ws = Some 0 then (Some err, ws)
      else (None, ws\<lparr>ws_outbox := ws_outbox ws @ [m],
                      ws_sends_left := map_option (\<lambda>n. n - 1) (ws_sends_left ws)\<rparr>))"

definition sock_close :: "'m socket \<Rightarrow> exn option \<times> 'm socket" where
  "sock_close ws =
     (case ws_close_error ws of
        Some e \<Rightarrow> (Some e, ws)
      | None \<Rightarrow> (None, ws\<lparr>ws_closed := True\<rparr>))"

text \<open>The messages the modelled code sends: to the AI service, and to Twilio.\<close>

datatype ai_message = InputAudioBufferAppend string

datatype twilio_message = Media string string

text \<open>
  The event loop's tasks running \<^verbatim>\<open>_debounced_flush\<close>, in the order of their creation; a
  session's \<open>commit_task\<close> is an index into this list. A task is created
  (\<open>TaskCreated\<close>: \<^verbatim>\<open>create_task\<close> has returned, the coroutine has not run yet), then takes
  its first step into the \<^verbatim>\<open>try\<close> and sleeps (\<open>TaskSleeping\<close>), then runs to its end
  (\<open>TaskDone\<close>). \<^verbatim>\<open>cancel()\<close> only asks for the cancellation: the task gets the
  \<^verbatim>\<open>CancelledError\<close> when the event loop next resumes it, at the sleep when it had started
  (\<open>TaskCancelling\<close>), before the \<^verbatim>\<open>try\<close> when it had not (\<open>TaskCancelledUnstarted\<close>).
  \<^verbatim>\<open>done()\<close> is true of a finished task only.
\<close>

datatype task_state =
    TaskCreated
  | TaskSleeping
  | TaskCancelledUnstarted
  | TaskCancelling
  | TaskDone

definition task_done :: "(string \<times> task_state) list \<Rightarrow> nat \<Rightarrow> bool" where
  "task_done tasks t = (if t < length tasks then snd (tasks ! t) = TaskDone else True)"

definition task_cancel :: "(string \<times> task_state) list \<Rightarrow> nat \<Rightarrow> (string \<times> task_state) list" where
  "task_cancel tasks t =
     (if t < length tasks \<and> snd (tasks ! t) = TaskCreated
      then tasks[t := (fst (tasks ! t), TaskCancelledUnstarted)]
      else if t < length tasks \<and> snd (tasks ! t) = TaskSleeping
      then tasks[t := (fst (tasks ! t), TaskCancelling)]
      else tasks)"

text \<open>
  Whether the \<^verbatim>\<open>try\<close> of \<^verbatim>\<open>_debounced_flush\<close> was entered, so that its \<^verbatim>\<open>finally\<close> runs when
  the task ends.
\<close>

definition task_started :: "task_state \<Rightarrow> bool" where
  "task_started state = (state = TaskSleeping \<or> state = TaskCancelling)"


section \<open>app/services/openai_voice_client.py: the session\<close>

definition MIN_COMMIT_SAMPLES :: int where
  "MIN_COMMIT_SAMPLES = 2400"

record RealtimeSession =
  websocket :: "ai_message socket"
  is_waiting_response :: bool
  transcript_buffer :: string
  audio_buffer :: "string list"
  pending_samples :: int
  last_commit_request :: nat
  commit_task :: "nat option"
  session_updated :: bool

text \<open>
  The loop of \<^verbatim>\<open>_flush_audio_buffer\<close>: each chunk is decoded (for the log's byte count)
  and sent; the first exception ends the loop.
\<close>

fun send_chunks :: "ai_message socket \<Rightarrow> string list \<Rightarrow> exn option \<times> ai_message socket" where
  "send_chunks ws [] = (None, ws)"
| "send_chunks ws (audio_chunk # rest) =
     (case b64decode audio_chunk of
        Inl e \<Rightarrow> (Some e, ws)
      | Inr audio_bytes \<Rightarrow>
          (case sock_send ConnectionClosed ws (InputAudioBufferAppend audio_chunk) of
             (Some e, ws') \<Rightarrow> (Some e, ws')
           | (None, ws') \<Rightarrow> send_chunks ws' rest))"

definition flush_audio_buffer :: "RealtimeSession \<Rightarrow> exn option \<times> RealtimeSession" where
  "flush_audio_buffer session =
     (if pending_samples session < MIN_COMMIT_SAMPLES then (None, session)
      else if audio_buffer session = [] then (None, session)
      else
        (case send_chunks (websocket session) (audio_buffer session) of
           (Some e, ws') \<Rightarrow> (Some e, session\<lparr>websocket := ws'\<rparr>)
         | (None, ws') \<Rightarrow>
             (None, session\<lparr>websocket := ws', audio_buffer := [], pending_samples := 0\<rparr>)))"


section \<open>The state of the three service objects\<close>

record audio_config =
  encoding :: string
  sample_rate :: int

text \<open>
  \<open>sessions\<close> and \<open>twilio_handler\<close> (whether \<^verbatim>\<open>register_twilio_handler\<close> has run) belong to
  \<^verbatim>\<open>OpenAIVoiceClient\<close>, \<open>twilio_connections\<close> and \<open>stream_audio_config\<close> to
  \<^verbatim>\<open>TwilioStreamHandler\<close>, \<open>session_context\<close> to \<^verbatim>\<open>ConversationStateManager\<close>;
  \<open>loop_tasks\<close> is the event loop's list of flush tasks, each with its stream id.
\<close>

record bridge =
  sessions :: "string \<rightharpoonup> RealtimeSession"
  twilio_handler :: bool
  twilio_connections :: "string \<rightharpoonup> twilio_message socket"
  stream_audio_config :: "string \<rightharpoonup> audio_config"
  session_context :: "string \<rightharpoonup> (string \<rightharpoonup> string)"
  loop_tasks :: "(string \<times> task_state) list"


section \<open>app/services/conversation_state.py\<close>

definition update_context :: "bridge \<Rightarrow> string \<Rightarrow> string \<Rightarrow> string \<Rightarrow> bridge" where
  "update_context st stream_sid key v =
     (let session_data = (case session_context st stream_sid of None \<Rightarrow> Map.empty | Some d \<Rightarrow> d)
      in st\<lparr>session_context := (session_context st)(stream_sid \<mapsto> session_data(key \<mapsto> v))\<rparr>)"

definition clear :: "bridge \<Rightarrow> string \<Rightarrow> bridge" where
  "clear st stream_sid = st\<lparr>session_context := (session_context st)(stream_sid := None)\<rparr>"


section \<open>app/services/openai_voice_client.py: the client\<close>

text \<open>
  \<^verbatim>\<open>_debounced_flush\<close>, resumed by the event loop (\<open>run_task\<close>). A created task takes its
  first step and sleeps. A sleeping task whose sleep is over flushes. A task cancelled in
  its sleep gets the \<^verbatim>\<open>CancelledError\<close> there; both ways the \<^verbatim>\<open>finally\<close> resets
  \<open>commit_task\<close>. A task cancelled before its first step ends without entering the
  \<^verbatim>\<open>try\<close>, so it resets nothing. An exception of the flush stays in the task, which
  nobody awaits. The task holds its session object; the model finds it under the task's
  stream id. The flush runs in one piece: the suspensions at its sends are not modelled.
\<close>

definition run_task :: "bridge \<Rightarrow> nat \<Rightarrow> bridge" where
  "run_task st t =
     (if task_done (loop_tasks st) t then st
      else
        (let (stream_sid, state) = loop_tasks st ! t
         in if state = TaskCreated
            then st\<lparr>loop_tasks := (loop_tasks st)[t := (stream_sid, TaskSleeping)]\<rparr>
            else
              (let st = st\<lparr>loop_tasks := (loop_tasks st)[t := (stream_sid, TaskDone)]\<rparr>
               in if \<not> task_started state then st
                  else
                    (case sessions st stream_sid of
                       None \<Rightarrow> st
                     | Some session \<Rightarrow>
                         (let session = (if state = TaskSleeping
                                         then snd (flush_audio_buffer session) else session)
                          in st\<lparr>sessions := (sessions st)(stream_sid \<mapsto>
                                 session\<lparr>commit_task := None\<rparr>)\<rparr>)))))"

definition send_audio_chunk :: "bridge \<Rightarrow> nat \<Rightarrow> string \<Rightarrow> string \<Rightarrow> exn option \<times> bridge" where
  "send_audio_chunk st now stream_sid audio_chunk_b64 =
     (case sessions st stream_sid of
        None \<Rightarrow> (None, st)
      | Some session \<Rightarrow>
          (case b64decode audio_chunk_b64 of
             Inl e \<Rightarrow> (if is_ValueError e \<or> e = TypeError then (None, st) else (Some e, st))
           | Inr audio_bytes \<Rightarrow>
               (let session = session\<lparr>
                      audio_buffer := audio_buffer session @ [audio_chunk_b64],
                      pending_samples := pending_samples session + int (length audio_bytes) div 2\<rparr>
                in if MIN_COMMIT_SAMPLES \<le> pending_samples session then
                     (let tasks = (case commit_task session of
                                     None \<Rightarrow> loop_tasks st
                                   | Some t \<Rightarrow> (if \<not> task_done (loop_tasks st) t
                                               then task_cancel (loop_tasks st) t
                                               else loop_tasks st));
                          session = session\<lparr>last_commit_request := now,
                                            commit_task := Some (length tasks)\<rparr>
                      in (None, st\<lparr>sessions := (sessions st)(stream_sid \<mapsto> session),
                                    loop_tasks := tasks @ [(stream_sid, TaskCreated)]\<rparr>))
                   else (None, st\<lparr>sessions := (sessions st)(stream_sid \<mapsto> session)\<rparr>))))"

text \<open>
  The body of \<^verbatim>\<open>close_session\<close> for the session it has popped. Awaiting the cancelled
  flush task runs that task to its end; its \<^verbatim>\<open>finally\<close> resets \<open>commit_task\<close> when the
  task had started, and a task that had not started leaves \<open>commit_task\<close> as it is.
  The sleep is a suspension point with no effect of its own. The result keeps the popped
  session, which the registry no longer holds.
\<close>

definition close_popped ::
  "(string \<times> task_state) list \<Rightarrow> RealtimeSession
     \<Rightarrow> exn option \<times> (string \<times> task_state) list \<times> RealtimeSession" where
  "close_popped tasks session =
     (let (tasks, session) =
            (case commit_task session of
               None \<Rightarrow> (tasks, session)
             | Some t \<Rightarrow>
                 (if \<not> task_done tasks t
                  then (tasks[t := (fst (tasks ! t), TaskDone)],
                        (if task_started (snd (tasks ! t))
                         then session\<lparr>commit_task := None\<rparr> else session))
                  else (tasks, session)));
          (raised, session) =
            (if MIN_COMMIT_SAMPLES \<le> pending_samples session \<and> audio_buffer session \<noteq> [] then
               (case flush_audio_buffer session of
                  (None, s) \<Rightarrow> (None, s)
                | (Some e, s) \<Rightarrow> (if is_Exception e then (None, s) else (Some e, s)))
             else (None, session))
      in case raised of
           Some e \<Rightarrow> (Some e, tasks, session)
         | None \<Rightarrow>
             (let session = session\<lparr>audio_buffer := [], pending_samples := 0\<rparr>;
                  (r, ws) = sock_close (websocket session)
              in (r, tasks, session\<lparr>websocket := ws\<rparr>)))"

definition close_session :: "bridge \<Rightarrow> string \<Rightarrow> exn option \<times> bridge" where
  "close_session st stream_sid =
     (case sessions st stream_sid of
        None \<Rightarrow> (None, st)
      | Some session \<Rightarrow>
          (let (r, tasks, closed_session) = close_popped (loop_tasks st) session
           in (r, st\<lparr>sessions := (sessions st)(stream_sid := None), loop_tasks := tasks\<rparr>)))"


section \<open>app/services/twilio_stream_handler.py\<close>

definition register_stream :: "bridge \<Rightarrow> string \<Rightarrow> twilio_message socket \<Rightarrow> bridge" where
  "register_stream st stream_sid ws =
     st\<lparr>twilio_connections := (twilio_connections st)(stream_sid \<mapsto> ws),
        stream_audio_config := (stream_audio_config st)(stream_sid \<mapsto>
          \<lparr>encoding = ''audio/x-mulaw'', sample_rate = 8000\<rparr>)\<rparr>"

text \<open>
  The two arguments are \<^verbatim>\<open>str | None\<close> and \<^verbatim>\<open>int | None\<close>; \<^verbatim>\<open>if encoding:\<close> and
  \<^verbatim>\<open>if sample_rate:\<close> test their truth value.
\<close>

definition configure_stream_audio :: "bridge \<Rightarrow> string \<Rightarrow> string option \<Rightarrow> int option \<Rightarrow> bridge" where
  "configure_stream_audio st stream_sid enc rate =
     (case stream_audio_config st stream_sid of
        None \<Rightarrow> st
      | Some audio_config \<Rightarrow>
          (let audio_config = (case enc of
                                 None \<Rightarrow> audio_config
                               | Some e \<Rightarrow> (if e \<noteq> [] then audio_config\<lparr>encoding := e\<rparr>
                                           else audio_config));
               audio_config = (case rate of
                                 None \<Rightarrow> audio_config
                               | Some r \<Rightarrow> (if r \<noteq> 0 then audio_config\<lparr>sample_rate := r\<rparr>
                                           else audio_config))
           in st\<lparr>stream_audio_config := (stream_audio_config st)(stream_sid \<mapsto> audio_config)\<rparr>))"

definition forward_media_chunk ::
  "ratecv_fun \<Rightarrow> bridge \<Rightarrow> nat \<Rightarrow> string \<Rightarrow> string \<Rightarrow> exn option \<times> bridge" where
  "forward_media_chunk ratecv st now stream_sid media_chunk_b64 =
     (case stream_audio_config st stream_sid of
        None \<Rightarrow> (None, st)
      | Some audio_config \<Rightarrow>
          (case convert_audio_to_pcm16 ratecv media_chunk_b64 (encoding audio_config)
                  (sample_rate audio_config) 16000 of
             Inl e \<Rightarrow> (if is_Exception e then (None, st) else (Some e, st))
           | Inr converted_chunk \<Rightarrow>
               (case send_audio_chunk st now stream_sid converted_chunk of
                  (None, st') \<Rightarrow> (None, st')
                | (Some e, st') \<Rightarrow> (if is_Exception e then (None, st') else (Some e, st')))))"

definition send_audio_to_twilio ::
  "ratecv_fun \<Rightarrow> bridge \<Rightarrow> string \<Rightarrow> string \<Rightarrow> exn option \<times> bridge" where
  "send_audio_to_twilio ratecv st stream_sid audio_payload_b64 =
     (case twilio_connections st stream_sid of
        None \<Rightarrow> (None, st)
      | Some ws \<Rightarrow>
          (case convert_pcm16_to_mulaw ratecv audio_payload_b64 24000 8000 of
             Inl e \<Rightarrow> (if is_Exception e then (None, st) else (Some e, st))
           | Inr twilio_payload \<Rightarrow>
               (let (r, ws') = sock_send RuntimeError ws (Media stream_sid twilio_payload)
                in (r, st\<lparr>twilio_connections := (twilio_connections st)(stream_sid \<mapsto> ws')\<rparr>))))"

text \<open>
  \<^verbatim>\<open>try: close_session finally: pop, pop, clear\<close>: the three cleanup steps run whatever
  \<^verbatim>\<open>close_session\<close> did, and an exception it raised goes on to the caller afterwards.
\<close>

definition terminate_session :: "bridge \<Rightarrow> string \<Rightarrow> exn option \<times> bridge" where
  "terminate_session st stream_sid =
     (let (r, st) = close_session st stream_sid;
          st = st\<lparr>twilio_connections := (twilio_connections st)(stream_sid := None)\<rparr>;
          st = st\<lparr>stream_audio_config := (stream_audio_config st)(stream_sid := None)\<rparr>;
          st = clear st stream_sid
      in (r, st))"


section \<open>app/services/openai_voice_client.py: the receive loop\<close>

definition recognized_event_types :: "string list" where
  "recognized_event_types =
     [''session.created'', ''session.updated'', ''input_audio_buffer.committed'',
      ''conversation.item.input_audio_transcription.completed'', ''response.created'',
      ''response.output_audio.delta'', ''response.output_audio.done'',
      ''response.output_item.added'', ''response.content_part.added'',
      ''response.output_audio_transcript.delta'', ''response.output_text.delta'',
      ''response.done'', ''response.completed'', ''response.error'', ''error'']"

text \<open>\<^verbatim>\<open>payload.get(key, {}).get(...)\<close> inside a log message: raises unless the member is a dict.\<close>

definition member_get :: "json \<Rightarrow> string \<Rightarrow> exn option" where
  "member_get payload key =
     (case py_get payload key (JObj []) of
        Inl e \<Rightarrow> Some e
      | Inr x \<Rightarrow> (if is_JObj x then None else Some AttributeError))"

text \<open>
  The debug message of the \<^verbatim>\<open>response.done\<close> branch is built before the transcript is
  stored. It calls \<^verbatim>\<open>.get\<close> on the \<^verbatim>\<open>response\<close> member, \<^verbatim>\<open>len\<close> on its \<^verbatim>\<open>output\<close> member and,
  when that is not empty, \<^verbatim>\<open>.get\<close> on each of its items.
\<close>

definition log_response_done :: "json \<Rightarrow> exn option" where
  "log_response_done payload =
     (case py_get payload ''response'' (JObj []) of
        Inl e \<Rightarrow> Some e
      | Inr response_data \<Rightarrow>
          (case py_get response_data ''output'' (JArr []) of
             Inl e \<Rightarrow> Some e
           | Inr output_items \<Rightarrow>
               (case output_items of
                  JNull \<Rightarrow> Some TypeError
                | JBool b \<Rightarrow> Some TypeError
                | JNum n \<Rightarrow> Some TypeError
                | JStr s \<Rightarrow> (if s = [] then None else Some AttributeError)
                | JArr xs \<Rightarrow> (if list_all is_JObj xs then None else Some AttributeError)
                | JObj kvs \<Rightarrow> (if kvs = [] then None else Some AttributeError))))"

definition put_session :: "bridge \<Rightarrow> string \<Rightarrow> RealtimeSession \<Rightarrow> bridge" where
  "put_session st stream_sid session = st\<lparr>sessions := (sessions st)(stream_sid \<mapsto> session)\<rparr>"

text \<open>The end of both terminal branches: store a non-empty transcript and reset it.\<close>

definition persist_transcript :: "bridge \<Rightarrow> string \<Rightarrow> RealtimeSession \<Rightarrow> bridge" where
  "persist_transcript st stream_sid session =
     (if transcript_buffer session \<noteq> [] then
        put_session
          (update_context st stream_sid ''last_ai_response'' (transcript_buffer session))
          stream_sid (session\<lparr>transcript_buffer := []\<rparr>)
      else put_session st stream_sid session)"

text \<open>
  One turn of the loop of \<^verbatim>\<open>_receive_and_forward\<close> on a parsed message. The session is
  the one registered under the stream id, which the loop holds for its whole life. The
  result \<open>Some e\<close> is an exception that leaves the loop body. Log messages are left out,
  but not the exceptions their arguments can raise.
\<close>

definition process_event :: "ratecv_fun \<Rightarrow> bridge \<Rightarrow> string \<Rightarrow> json \<Rightarrow> exn option \<times> bridge" where
  "process_event ratecv st stream_sid payload =
     (case sessions st stream_sid of
        None \<Rightarrow> (None, st)
      | Some session \<Rightarrow>
     (case py_get payload ''type'' JNull of
        Inl e \<Rightarrow> (Some e, st)
      | Inr event_type \<Rightarrow>
          if event_type = JStr ''session.created'' then (None, st)
          else if event_type = JStr ''session.updated'' then
            (member_get payload ''session'',
             put_session st stream_sid (session\<lparr>session_updated := True\<rparr>))
          else if event_type = JStr ''input_audio_buffer.committed'' then (None, st)
          else if event_type = JStr ''conversation.item.input_audio_transcription.completed''
            then (None, st)
          else if event_type = JStr ''response.created'' then
            (member_get payload ''response'', st)
          else if event_type = JStr ''response.output_audio.delta'' then
            (case py_get payload ''delta'' JNull of
               Inl e \<Rightarrow> (Some e, st)
             | Inr audio_delta \<Rightarrow>
                 (case audio_delta of
                    JStr s \<Rightarrow>
                      (if s \<noteq> [] \<and> twilio_handler st
                       then send_audio_to_twilio ratecv st stream_sid s else (None, st))
                  | JArr xs \<Rightarrow> (None, st)
                  | JNull \<Rightarrow> (None, st)
                  | other \<Rightarrow> (if truthy other then (Some TypeError, st) else (None, st))))
          else if event_type = JStr ''response.output_audio.done'' then (None, st)
          else if event_type = JStr ''response.output_item.added'' then
            (member_get payload ''item'', st)
          else if event_type = JStr ''response.content_part.added'' then
            (member_get payload ''part'', st)
          else if event_type = JStr ''response.output_audio_transcript.delta'' then (None, st)
          else if event_type = JStr ''response.output_text.delta'' then
            (case py_get payload ''delta'' (JStr []) of
               Inr (JStr text_delta) \<Rightarrow>
                 (None, put_session st stream_sid
                    (session\<lparr>transcript_buffer := transcript_buffer session @ text_delta\<rparr>))
             | Inr other \<Rightarrow> (Some TypeError, st)
             | Inl e \<Rightarrow> (Some e, st))
          else if event_type = JStr ''response.done'' then
            (let session = session\<lparr>is_waiting_response := False\<rparr>
             in case log_response_done payload of
                  Some e \<Rightarrow> (Some e, put_session st stream_sid session)
                | None \<Rightarrow> (None, persist_transcript st stream_sid session))
          else if event_type = JStr ''response.completed'' then
            (None, persist_transcript st stream_sid (session\<lparr>is_waiting_response := False\<rparr>))
          else if event_type = JStr ''response.error'' then
            (None, put_session st stream_sid (session\<lparr>is_waiting_response := False\<rparr>))
          else if event_type = JStr ''error'' then
            (None, put_session st stream_sid (session\<lparr>is_waiting_response := False\<rparr>))
          else (None, st)))"

text \<open>
  The loop over the messages the connection delivers (\<open>None\<close>: a message that
  \<^verbatim>\<open>json.loads\<close> rejects, which is skipped). The end of the list is the closing of the
  connection. An \<^verbatim>\<open>Exception\<close> from the body ends the loop and is logged.
\<close>

fun receive_loop ::
  "ratecv_fun \<Rightarrow> bridge \<Rightarrow> string \<Rightarrow> json option list \<Rightarrow> exn option \<times> bridge" where
  "receive_loop ratecv st stream_sid [] = (None, st)"
| "receive_loop ratecv st stream_sid (None # messages) =
     receive_loop ratecv st stream_sid messages"
| "receive_loop ratecv st stream_sid (Some payload # messages) =
     (case process_event ratecv st stream_sid payload of
        (None, st') \<Rightarrow> receive_loop ratecv st' stream_sid messages
      | (Some e, st') \<Rightarrow> (if is_Exception e then (None, st') else (Some e, st')))"

definition receive_and_forward ::
  "ratecv_fun \<Rightarrow> bridge \<Rightarrow> string \<Rightarrow> json option list \<Rightarrow> exn option \<times> bridge" where
  "receive_and_forward ratecv st stream_sid messages =
     (case sessions st stream_sid of
        None \<Rightarrow> (None, st)
      | Some session \<Rightarrow> receive_loop ratecv st stream_sid messages)"


section \<open>Vocabulary of the properties\<close>

text \<open>A chunk that \<^verbatim>\<open>base64.b64decode\<close> accepts.\<close>

definition decodable :: "string \<Rightarrow> bool" where
  "decodable chunk = (case b64decode chunk of Inl e \<Rightarrow> False | Inr audio_bytes \<Rightarrow> True)"


text \<open>
  What can happen to a session between two looks at it while audio comes in: a call of
  \<^verbatim>\<open>send_audio_chunk\<close> for its stream, or the event loop resuming one of the flush tasks.
\<close>

datatype action = Chunk string | Timer nat

fun run_actions :: "bridge \<Rightarrow> nat \<Rightarrow> string \<Rightarrow> action list \<Rightarrow> bridge" where
  "run_actions st now stream_sid [] = st"
| "run_actions st now stream_sid (Chunk c # acts) =
     run_actions (snd (send_audio_chunk st now stream_sid c)) now stream_sid acts"
| "run_actions st now stream_sid (Timer t # acts) =
     run_actions (run_task st t) now stream_sid acts"

text \<open>The samples a chunk adds to \<open>pending_samples\<close>: none when it is not base64.\<close>

definition chunk_samples :: "string \<Rightarrow> int" where
  "chunk_samples c =
     (case b64decode c of Inl e \<Rightarrow> 0 | Inr audio_bytes \<Rightarrow> int (length audio_bytes) div 2)"

fun total_samples :: "action list \<Rightarrow> int" where
  "total_samples [] = 0"
| "total_samples (Chunk c # acts) = chunk_samples c + total_samples acts"
| "total_samples (Timer t # acts) = total_samples acts"

fun accepted_chunks :: "action list \<Rightarrow> string list" where
  "accepted_chunks [] = []"
| "accepted_chunks (Chunk c # acts) =
     (if decodable c then c # accepted_chunks acts else accepted_chunks acts)"
| "accepted_chunks (Timer t # acts) = accepted_chunks acts"

text \<open>Python's truth value of the two optional arguments of \<^verbatim>\<open>configure_stream_audio\<close>.\<close>

definition py_truthy_str :: "string option \<Rightarrow> bool" where
  "py_truthy_str e = (case e of None \<Rightarrow> False | Some s \<Rightarrow> s \<noteq> [])"

definition py_truthy_int :: "int option \<Rightarrow> bool" where
  "py_truthy_int r = (case r of None \<Rightarrow> False | Some n \<Rightarrow> n \<noteq> 0)"


text \<open>
  The shape of a \<^verbatim>\<open>response.done\<close> event of the Realtime API, as far as the branch reads
  it: the \<^verbatim>\<open>response\<close> member, when present, is an object, and its \<^verbatim>\<open>output\<close> member, when
  present, is a list of objects.
\<close>

fun is_object_list :: "json \<Rightarrow> bool" where
  "is_object_list (JArr items) = list_all is_JObj items"
| "is_object_list x = False"

fun has_output_list :: "json \<Rightarrow> bool" where
  "has_output_list (JObj r) =
     (case map_of r ''output'' of None \<Rightarrow> True | Some out \<Rightarrow> is_object_list out)"
| "has_output_list x = False"

definition wellformed_response_done :: "json \<Rightarrow> bool" where
  "wellformed_response_done payload =
     (case py_get payload ''response'' (JObj []) of
        Inl e \<Rightarrow> False
      | Inr response_data \<Rightarrow> has_output_list response_data)"

text \<open>The four encoding tags that \<^verbatim>\<open>convert_audio_to_pcm16\<close> knows.\<close>

definition supported_encodings :: "string set" where
  "supported_encodings = {''audio/x-mulaw'', ''audio/x-alaw'', ''audio/x-raw'', ''audio/L16''}"

text \<open>
  What a \<open>\<mu>\<close>-law byte sequence becomes when it is decoded and encoded again: the byte
  \<^verbatim>\<open>0x7F\<close> (negative zero) comes back as \<^verbatim>\<open>0xFF\<close> (positive zero), every other byte as
  itself.
\<close>

definition mulaw_requantize :: "byte list \<Rightarrow> byte list" where
  "mulaw_requantize x = map (\<lambda>u. if u = 127 then 255 else u) x"


section \<open>Example states\<close>

definition live_socket :: "'m socket" where
  "live_socket =
     \<lparr>ws_outbox = [], ws_sends_left = None, ws_close_error = None, ws_closed = False\<rparr>"


definition stubborn_socket :: "'m socket" where
  "stubborn_socket =
     \<lparr>ws_outbox = [], ws_sends_left = None, ws_close_error = Some RuntimeError,
      ws_closed = False\<rparr>"

text \<open>\<^verbatim>\<open>RealtimeSession(websocket=ws)\<close>: a session as \<^verbatim>\<open>create_session\<close> registers it.\<close>

definition fresh_session :: "ai_message socket \<Rightarrow> RealtimeSession" where
  "fresh_session ws =
     \<lparr>websocket = ws, is_waiting_response = False, transcript_buffer = [],
      audio_buffer = [], pending_samples = 0, last_commit_request = 0,
      commit_task = None, session_updated = False\<rparr>"

text \<open>
  A chunk of 4800 zero bytes in base64: 2400 samples of PCM16, 150 ms at 16 kHz. And the
  session that one call of \<^verbatim>\<open>send_audio_chunk\<close> with it, at time 7, leaves behind when
  the flush task it creates is the first task of the event loop.
\<close>

definition silence_chunk :: string where
  "silence_chunk = concat (replicate 1600 ''AAAA'')"

definition buffered_session :: "ai_message socket \<Rightarrow> RealtimeSession" where
  "buffered_session ws =
     \<lparr>websocket = ws, is_waiting_response = False, transcript_buffer = [],
      audio_buffer = [silence_chunk], pending_samples = 2400, last_commit_request = 7,
      commit_task = Some 0, session_updated = False\<rparr>"

definition talking_session :: RealtimeSession where
  "talking_session =
     (fresh_session live_socket)\<lparr>is_waiting_response := True,
        transcript_buffer := ''annyeong''\<rparr>"

definition example_bridge :: "RealtimeSession \<Rightarrow> bridge" where
  "example_bridge session =
     \<lparr>sessions = [''CA123'' \<mapsto> session],
      twilio_handler = True,
      twilio_connections = [''CA123'' \<mapsto> live_socket],
      stream_audio_config = [''CA123'' \<mapsto> \<lparr>encoding = ''audio/x-mulaw'', sample_rate = 8000\<rparr>],
      session_context = [''CA123'' \<mapsto> Map.empty],
      loop_tasks = []\<rparr>"


definition ogg_bridge :: bridge where
  "ogg_bridge =
     (example_bridge (fresh_session live_socket))\<lparr>stream_audio_config :=
        [''CA123'' \<mapsto> \<lparr>encoding = ''audio/ogg'', sample_rate = 8000\<rparr>]\<rparr>"

text \<open>
  Two events whose \<^verbatim>\<open>response\<close> member is \<^verbatim>\<open>null\<close>:
  \<^verbatim>\<open>{"type": "response.done", "response": null}\<close> and the same with the type
  \<^verbatim>\<open>response.completed\<close>.
\<close>

definition null_done_event :: json where
  "null_done_event = JObj [(''type'', JStr ''response.done''), (''response'', JNull)]"

definition null_completed_event :: json where
  "null_completed_event = JObj [(''type'', JStr ''response.completed''), (''response'', JNull)]"

definition unknown_event :: json where
  "unknown_event = JObj [(''type'', JStr ''rate_limits.updated''), (''delta'', JStr ''AAAA'')]"


section \<open>Facts about the standard library model\<close>

lemma a2b_base64_errors:
  "a2b_base64 s quad_pos leftchar pads out = Inl e \<Longrightarrow> e = BinasciiError"
  by (induction s quad_pos leftchar pads out rule: a2b_base64.induct)
     (auto split: if_splits option.splits)

lemma b64decode_errors: "b64decode c = Inl e \<Longrightarrow> is_ValueError e"
  by (auto simp: b64decode_def split: if_splits dest: a2b_base64_errors)

lemma dec_AAAA: "b64decode ''AAAA'' = Inr [0, 0, 0]"
  by code_simp

lemma dec_AQID: "b64decode ''AQID'' = Inr [1, 2, 3]"
  by code_simp


lemma index_of_nth: "distinct xs \<Longrightarrow> n < length xs \<Longrightarrow> index_of (xs ! n) xs = Some n"
proof (induction xs arbitrary: n)
  case Nil
  then show ?case by simp
next
  case (Cons x xs)
  show ?case
  proof (cases n)
    case 0
    then show ?thesis by simp
  next
    case (Suc m)
    with Cons.prems have m: "m < length xs" and d: "distinct xs" and nx: "x \<notin> set xs"
      by simp_all
    from m nx have "xs ! m \<noteq> x" by (metis nth_mem)
    with Cons.IH [OF d m] Suc show ?thesis by simp
  qed
qed

lemma b64_alphabet_distinct: "distinct b64_alphabet"
  by (simp add: b64_alphabet_def)

lemma b64_alphabet_length: "length b64_alphabet = 64"
  by (simp add: b64_alphabet_def)

lemma b64_alphabet_no_pad: "CHR ''='' \<notin> set b64_alphabet"
  by (simp add: b64_alphabet_def)

lemma b64_alphabet_ascii: "list_all is_ascii b64_alphabet"
  by (simp add: b64_alphabet_def is_ascii_def)

lemma b64_index_char: "n < 64 \<Longrightarrow> b64_index (b64_char n) = Some n"
  by (simp add: b64_index_def b64_char_def index_of_nth b64_alphabet_distinct b64_alphabet_length)

lemma b64_char_in_alphabet: "n < 64 \<Longrightarrow> b64_char n \<in> set b64_alphabet"
  by (simp add: b64_char_def b64_alphabet_length)

lemma b64_char_not_pad: "n < 64 \<Longrightarrow> b64_char n \<noteq> CHR ''=''"
  using b64_alphabet_no_pad b64_char_in_alphabet [of n] by auto

lemma b64_char_ascii: "n < 64 \<Longrightarrow> is_ascii (b64_char n)"
  using b64_alphabet_ascii b64_char_in_alphabet [of n] by (auto simp: list_all_iff)

lemma unat_byte_less: "unat (a :: byte) < 256"
proof -
  have "unat a < 2 ^ LENGTH(8)" by (rule unsigned_less)
  then show ?thesis by simp
qed

lemma a2b_data_char:
  "v < 64 \<Longrightarrow> a2b_base64 (b64_char v # cs) quad_pos leftchar pads out =
     (if quad_pos = 0 then a2b_base64 cs 1 v 0 out
      else if quad_pos = 1 then
        a2b_base64 cs 2 (v mod 16) 0 (out @ [of_nat (leftchar * 4 + v div 16)])
      else if quad_pos = 2 then
        a2b_base64 cs 3 (v mod 4) 0 (out @ [of_nat (leftchar * 16 + v div 4)])
      else a2b_base64 cs 0 0 0 (out @ [of_nat (leftchar * 64 + v)]))"
  by (simp add: b64_index_char b64_char_not_pad)

lemma a2b_quad:
  assumes "v0 < 64" "v1 < 64" "v2 < 64" "v3 < 64"
  shows "a2b_base64 (b64_char v0 # b64_char v1 # b64_char v2 # b64_char v3 # cs) 0 0 0 out =
     a2b_base64 cs 0 0 0
       (out @ [of_nat (v0 * 4 + v1 div 16), of_nat (v1 mod 16 * 16 + v2 div 4),
               of_nat (v2 mod 4 * 64 + v3)])"
  by (simp only: a2b_data_char [OF assms(1)] a2b_data_char [OF assms(2)]
        a2b_data_char [OF assms(3)] a2b_data_char [OF assms(4)]) simp

lemma a2b_tail3:
  assumes "v0 < 64" "v1 < 64" "v2 < 64"
  shows "a2b_base64 [b64_char v0, b64_char v1, b64_char v2, CHR ''=''] 0 0 0 out =
     Inr (out @ [of_nat (v0 * 4 + v1 div 16), of_nat (v1 mod 16 * 16 + v2 div 4)])"
  by (simp only: a2b_data_char [OF assms(1)] a2b_data_char [OF assms(2)]
        a2b_data_char [OF assms(3)]) simp

lemma a2b_tail2:
  assumes "v0 < 64" "v1 < 64"
  shows "a2b_base64 [b64_char v0, b64_char v1, CHR ''='', CHR ''=''] 0 0 0 out =
     Inr (out @ [of_nat (v0 * 4 + v1 div 16)])"
  by (simp only: a2b_data_char [OF assms(1)] a2b_data_char [OF assms(2)]) simp

lemma sextet_bounds:
  fixes x y z :: nat
  assumes "x < 256" "y < 256" "z < 256"
  shows "x div 4 < 64" "(x mod 4) * 16 + y div 16 < 64" "(y mod 16) * 4 + z div 64 < 64"
    "z mod 64 < 64" "(x mod 4) * 16 < 64" "(y mod 16) * 4 < 64"
proof -
  from assms have d: "y div 16 < 16" "z div 64 < 4" "x div 4 < 64" by simp_all
  have m: "x mod 4 < 4" "y mod 16 < 16" by simp_all
  from d show "x div 4 < 64" by simp
  from d m show "(x mod 4) * 16 + y div 16 < 64" by linarith
  from d m show "(y mod 16) * 4 + z div 64 < 64" by linarith
  show "z mod 64 < 64" by simp
  from m show "(x mod 4) * 16 < 64" by linarith
  from m show "(y mod 16) * 4 < 64" by linarith
qed

lemma sextet_bytes:
  fixes x y z :: nat
  assumes "x < 256" "y < 256" "z < 256"
  shows "x div 4 * 4 + ((x mod 4) * 16 + y div 16) div 16 = x"
    "((x mod 4) * 16 + y div 16) mod 16 * 16 + ((y mod 16) * 4 + z div 64) div 4 = y"
    "((y mod 16) * 4 + z div 64) mod 4 * 64 + z mod 64 = z"
    "x div 4 * 4 + ((x mod 4) * 16) div 16 = x"
    "((x mod 4) * 16 + y div 16) mod 16 * 16 + ((y mod 16) * 4) div 4 = y"
proof -
  from assms(2,3) have d: "y div 16 < 16" "z div 64 < 4" by simp_all
  from d have a: "((x mod 4) * 16 + y div 16) div 16 = x mod 4" by simp
  from d have b: "((x mod 4) * 16 + y div 16) mod 16 = y div 16" by simp
  from d have c: "((y mod 16) * 4 + z div 64) div 4 = y mod 16" by simp
  from d have e: "((y mod 16) * 4 + z div 64) mod 4 = z div 64" by simp
  show "x div 4 * 4 + ((x mod 4) * 16 + y div 16) div 16 = x"
    unfolding a by simp
  show "((x mod 4) * 16 + y div 16) mod 16 * 16 + ((y mod 16) * 4 + z div 64) div 4 = y"
    unfolding b c by simp
  show "((y mod 16) * 4 + z div 64) mod 4 * 64 + z mod 64 = z"
    unfolding e by simp
  show "x div 4 * 4 + ((x mod 4) * 16) div 16 = x"
    by simp
  show "((x mod 4) * 16 + y div 16) mod 16 * 16 + ((y mod 16) * 4) div 4 = y"
    unfolding b by simp
qed

lemma a2b_b2a: "a2b_base64 (b2a_base64 bs) 0 0 0 out = Inr (out @ bs)"
proof (induction bs arbitrary: out rule: b2a_base64.induct)
  case 1
  then show ?case by simp
next
  case (2 a)
  note s = sextet_bounds [OF unat_byte_less [of a] unat_byte_less [of a] unat_byte_less [of a]]
  note t = sextet_bytes [OF unat_byte_less [of a] unat_byte_less [of a] unat_byte_less [of a]]
  have "a2b_base64 (b2a_base64 [a]) 0 0 0 out =
      Inr (out @ [of_nat (unat a div 4 * 4 + ((unat a mod 4) * 16) div 16)])"
    unfolding b2a_base64.simps by (rule a2b_tail2 [OF s(1) s(5)])
  also have "\<dots> = Inr (out @ [a])"
    unfolding t(4) by simp
  finally show ?case .
next
  case (3 a b)
  note s = sextet_bounds [OF unat_byte_less [of a] unat_byte_less [of b] unat_byte_less [of b]]
  note t = sextet_bytes [OF unat_byte_less [of a] unat_byte_less [of b] unat_byte_less [of b]]
  have "a2b_base64 (b2a_base64 [a, b]) 0 0 0 out =
      Inr (out @ [of_nat (unat a div 4 * 4 + ((unat a mod 4) * 16 + unat b div 16) div 16),
                  of_nat (((unat a mod 4) * 16 + unat b div 16) mod 16 * 16 +
                          ((unat b mod 16) * 4) div 4)])"
    unfolding b2a_base64.simps by (rule a2b_tail3 [OF s(1) s(2) s(6)])
  also have "\<dots> = Inr (out @ [a, b])"
    unfolding t(1) t(5) by simp
  finally show ?case .
next
  case (4 a b c rest)
  note s = sextet_bounds [OF unat_byte_less [of a] unat_byte_less [of b] unat_byte_less [of c]]
  note t = sextet_bytes [OF unat_byte_less [of a] unat_byte_less [of b] unat_byte_less [of c]]
  have "a2b_base64 (b2a_base64 (a # b # c # rest)) 0 0 0 out =
      a2b_base64 (b2a_base64 rest) 0 0 0
       (out @ [of_nat (unat a div 4 * 4 + ((unat a mod 4) * 16 + unat b div 16) div 16),
               of_nat (((unat a mod 4) * 16 + unat b div 16) mod 16 * 16 +
                       ((unat b mod 16) * 4 + unat c div 64) div 4),
               of_nat (((unat b mod 16) * 4 + unat c div 64) mod 4 * 64 + unat c mod 64)])"
    unfolding b2a_base64.simps append.simps by (rule a2b_quad [OF s(1) s(2) s(3) s(4)])
  also have "\<dots> = a2b_base64 (b2a_base64 rest) 0 0 0 (out @ [a, b, c])"
    unfolding t(1) t(2) t(3) by simp
  also have "\<dots> = Inr ((out @ [a, b, c]) @ rest)"
    by (rule "4.IH")
  finally show ?case by simp
qed

lemma b2a_ascii: "list_all is_ascii (b2a_base64 bs)"
proof (induction bs rule: b2a_base64.induct)
  case 1
  then show ?case by simp
next
  case (2 a)
  note s = sextet_bounds [OF unat_byte_less [of a] unat_byte_less [of a] unat_byte_less [of a]]
  note t = sextet_bytes [OF unat_byte_less [of a] unat_byte_less [of a] unat_byte_less [of a]]
  have "is_ascii CHR ''=''" by (simp add: is_ascii_def)
  with b64_char_ascii [OF s(1)] b64_char_ascii [OF s(5)] show ?case by simp
next
  case (3 a b)
  note s = sextet_bounds [OF unat_byte_less [of a] unat_byte_less [of b] unat_byte_less [of b]]
  note t = sextet_bytes [OF unat_byte_less [of a] unat_byte_less [of b] unat_byte_less [of b]]
  have "is_ascii CHR ''=''" by (simp add: is_ascii_def)
  with b64_char_ascii [OF s(1)] b64_char_ascii [OF s(2)] b64_char_ascii [OF s(6)]
  show ?case by simp
next
  case (4 a b c rest)
  note s = sextet_bounds [OF unat_byte_less [of a] unat_byte_less [of b] unat_byte_less [of c]]
  note t = sextet_bytes [OF unat_byte_less [of a] unat_byte_less [of b] unat_byte_less [of c]]
  from "4.IH" b64_char_ascii [OF s(1)] b64_char_ascii [OF s(2)] b64_char_ascii [OF s(3)]
    b64_char_ascii [OF s(4)]
  show ?case by simp
qed

lemma b64decode_b64encode: "b64decode (b64encode bs) = Inr bs"
  using a2b_b2a [of bs "[]"] by (simp add: b64decode_def b64encode_def b2a_ascii)



lemma b64_char_A: "b64_char 0 = CHR ''A''"
  by (simp add: b64_char_def b64_alphabet_def)

lemma a2b_silence:
  "a2b_base64 (concat (replicate n ''AAAA'') @ rest) 0 0 0 out =
     a2b_base64 rest 0 0 0 (out @ replicate (3 * n) 0)"
proof (induction n arbitrary: out)
  case 0
  then show ?case by simp
next
  case (Suc n)
  have z: "(0::nat) < 64" by simp
  have "a2b_base64 (concat (replicate (Suc n) ''AAAA'') @ rest) 0 0 0 out =
      a2b_base64 (b64_char 0 # b64_char 0 # b64_char 0 # b64_char 0 #
        (concat (replicate n ''AAAA'') @ rest)) 0 0 0 out"
    by (simp add: b64_char_A)
  also have "\<dots> = a2b_base64 (concat (replicate n ''AAAA'') @ rest) 0 0 0 (out @ [0, 0, 0])"
    unfolding a2b_quad [OF z z z z] by simp
  also have "\<dots> = a2b_base64 rest 0 0 0 ((out @ [0, 0, 0]) @ replicate (3 * n) 0)"
    by (rule Suc.IH)
  also have "(out @ [0, 0, 0]) @ replicate (3 * n) 0 = out @ replicate (3 * Suc n) (0 :: byte)"
    by (simp add: numeral_3_eq_3)
  finally show ?case .
qed

lemma silence_ascii: "list_all is_ascii (concat (replicate n ''AAAA''))"
  by (induction n) (simp_all add: is_ascii_def)

lemma dec_silence: "b64decode silence_chunk = Inr (replicate 4800 0)"
  using a2b_silence [of 1600 "[]" "[]"]
  by (simp add: b64decode_def silence_chunk_def silence_ascii)

lemma sixteen_cases:
  fixes j :: int
  assumes "0 \<le> j" "j < 16"
  shows "j = 0 \<or> j = 1 \<or> j = 2 \<or> j = 3 \<or> j = 4 \<or> j = 5 \<or> j = 6 \<or> j = 7 \<or>
         j = 8 \<or> j = 9 \<or> j = 10 \<or> j = 11 \<or> j = 12 \<or> j = 13 \<or> j = 14 \<or> j = 15"
  using assms by arith

lemma ulaw_byte_enum:
  fixes j m :: int
  assumes "0 \<le> j" "j < 16" "0 \<le> m" "m < 16"
  shows "linear2ulaw14 (ulaw2linear16 (of_int (16 * j + m)) div 4) =
           (if (of_int (16 * j + m) :: byte) = 127 then 255 else of_int (16 * j + m)) \<and>
         - 32768 \<le> ulaw2linear16 (of_int (16 * j + m)) \<and>
         ulaw2linear16 (of_int (16 * j + m)) < 32768"
  using sixteen_cases [OF assms(1,2)] sixteen_cases [OF assms(3,4)]
  by (elim disjE; simp add: linear2ulaw14_def ulaw2linear16_def seg_uend_def Let_def)

lemma byte_split:
  fixes u :: byte
  shows "u = of_int (16 * (uint u div 16) + uint u mod 16) \<and>
         0 \<le> uint u div 16 \<and> uint u div 16 < 16 \<and> 0 \<le> uint u mod 16 \<and> uint u mod 16 < 16"
proof -
  have "uint u < 2 ^ LENGTH(8)" by (rule unsigned_less)
  then have lt: "uint u < 256" by simp
  have ge: "0 \<le> uint u" by simp
  from ge have d1: "0 \<le> uint u div 16" by arith
  from lt have d2: "uint u div 16 < 16" by arith
  have m: "0 \<le> uint u mod 16" "uint u mod 16 < 16" by simp_all
  have "16 * (uint u div 16) + uint u mod 16 = uint u" by simp
  then have "u = of_int (16 * (uint u div 16) + uint u mod 16)" by simp
  with d1 d2 m show ?thesis by blast
qed

lemma ulaw_byte:
  fixes u :: byte
  shows "linear2ulaw14 (ulaw2linear16 u div 4) = (if u = 127 then 255 else u)"
    and "- 32768 \<le> ulaw2linear16 u" and "ulaw2linear16 u < 32768"
proof -
  from byte_split [of u] have u: "u = of_int (16 * (uint u div 16) + uint u mod 16)"
    and b: "0 \<le> uint u div 16" "uint u div 16 < 16" "0 \<le> uint u mod 16" "uint u mod 16 < 16"
    by blast+
  from ulaw_byte_enum [OF b] u
  show "linear2ulaw14 (ulaw2linear16 u div 4) = (if u = 127 then 255 else u)"
    and "- 32768 \<le> ulaw2linear16 u" and "ulaw2linear16 u < 32768"
    by simp_all
qed


lemma wrap16:
  fixes v :: int
  assumes "- 32768 \<le> v" "v < 32768"
  shows "(let w = v mod 256 + 256 * ((v div 256) mod 256) in if 32768 \<le> w then w - 65536 else w) = v"
proof -
  have split: "v mod 256 + 256 * ((v div 256) mod 256) = v mod 65536"
  proof -
    have "v mod 65536 = v mod (256 * 256)" by simp
    also have "\<dots> = 256 * ((v div 256) mod 256) + v mod 256"
      by (rule zmod_zmult2_eq) simp
    finally show ?thesis by simp
  qed
  show ?thesis
  proof (cases "0 \<le> v")
    case True
    with assms have "v mod 65536 = v" by simp
    with split True assms show ?thesis by (simp add: Let_def)
  next
    case False
    have "v mod 65536 = (v + 65536) mod 65536" by simp
    also from False assms have "\<dots> = v + 65536"
      by (intro mod_pos_pos_trivial) simp_all
    finally have "v mod 65536 = v + 65536" .
    with split False assms show ?thesis by (simp add: Let_def)
  qed
qed

lemma samples16_le16:
  assumes "- 32768 \<le> v" "v < 32768"
  shows "samples16 (le16 v @ rest) = v # samples16 rest"
proof -
  have lo: "uint (of_int v :: byte) = v mod 256"
    by (simp add: uint_word_of_int)
  have hi: "uint (of_int (v div 256) :: byte) = (v div 256) mod 256"
    by (simp add: uint_word_of_int)
  from wrap16 [OF assms] show ?thesis
    by (simp add: le16_def lo hi Let_def)
qed


lemma samples16_ulaw2lin: "samples16 (ulaw2lin xs) = map ulaw2linear16 xs"
  by (induction xs) (simp_all add: ulaw2lin_def samples16_le16 ulaw_byte)

lemma length_ulaw2lin: "length (ulaw2lin xs) = 2 * length xs"
  by (induction xs) (simp_all add: ulaw2lin_def le16_def)

lemma lin2ulaw_ulaw2lin: "lin2ulaw (ulaw2lin xs) = Inr (mulaw_requantize xs)"
  by (simp add: lin2ulaw_def length_ulaw2lin samples16_ulaw2lin ulaw_byte(1) mulaw_requantize_def)

lemma requantize_same_level: "ulaw2linear16 (if u = 127 then 255 else u) = ulaw2linear16 u"
  by (simp add: ulaw2linear16_def)

lemma ValueError_is_Exception: "is_ValueError e \<Longrightarrow> is_Exception e"
  by (cases e) simp_all

lemma unsupported_convert_raises:
  assumes "enc \<notin> supported_encodings"
  shows "\<exists>e. convert_audio_to_pcm16 ratecv chunk enc src tgt = Inl e \<and> is_Exception e"
proof (cases "b64decode chunk")
  case (Inl e)
  then have "is_Exception e" by (intro ValueError_is_Exception b64decode_errors)
  with Inl show ?thesis by (simp add: convert_audio_to_pcm16_def)
next
  case (Inr raw)
  with assms show ?thesis
    by (simp add: convert_audio_to_pcm16_def decode_by_encoding_def supported_encodings_def)
qed


section \<open>The flush of the audio buffer\<close>



lemma flush_below_threshold:
  "pending_samples session < MIN_COMMIT_SAMPLES \<Longrightarrow> flush_audio_buffer session = (None, session)"
  by (simp add: flush_audio_buffer_def)






text \<open>\<^verbatim>\<open>send_audio_chunk\<close> buffers a chunk only after it has decoded it.\<close>

lemma send_audio_chunk_keeps_decodable:
  assumes "sessions st stream_sid = Some session"
    and "list_all decodable (audio_buffer session)"
  shows "\<exists>session'. sessions (snd (send_audio_chunk st now stream_sid c)) stream_sid =
            Some session' \<and> list_all decodable (audio_buffer session')"
proof (cases "b64decode c")
  case (Inl e)
  with assms show ?thesis by (simp add: send_audio_chunk_def)
next
  case (Inr audio_bytes)
  then have "decodable c" by (simp add: decodable_def)
  with Inr assms show ?thesis by (simp add: send_audio_chunk_def Let_def)
qed

text \<open>The example session with 150 ms of silence is what one call of \<^verbatim>\<open>send_audio_chunk\<close> builds.\<close>

lemma buffered_session_reachable:
  "send_audio_chunk (example_bridge (fresh_session ws)) 7 ''CA123'' silence_chunk =
     (None, (example_bridge (buffered_session ws))\<lparr>loop_tasks := [(''CA123'', TaskCreated)]\<rparr>)"
  by (simp add: send_audio_chunk_def example_bridge_def fresh_session_def buffered_session_def
        dec_silence MIN_COMMIT_SAMPLES_def Let_def)





section \<open>Buffering below the threshold\<close>

lemma chunk_samples_nonneg: "0 \<le> chunk_samples c"
  by (simp add: chunk_samples_def split: sum.splits)

lemma total_samples_nonneg: "0 \<le> total_samples acts"
  by (induction acts rule: total_samples.induct) (simp_all add: chunk_samples_nonneg)

lemma send_audio_chunk_below:
  assumes "sessions st stream_sid = Some session"
    and "pending_samples session + chunk_samples c < MIN_COMMIT_SAMPLES"
  shows "snd (send_audio_chunk st now stream_sid c) =
           st\<lparr>sessions := (sessions st)(stream_sid \<mapsto>
                session\<lparr>audio_buffer := audio_buffer session @ (if decodable c then [c] else []),
                        pending_samples := pending_samples session + chunk_samples c\<rparr>)\<rparr>"
proof (cases "b64decode c")
  case (Inl e)
  have "(sessions st)(stream_sid \<mapsto> session) = sessions st"
    using assms(1) by (simp add: fun_upd_idem)
  with Inl assms show ?thesis
    by (simp add: send_audio_chunk_def chunk_samples_def decodable_def)
next
  case (Inr bs)
  with assms show ?thesis
    by (simp add: send_audio_chunk_def chunk_samples_def decodable_def Let_def)
qed

lemma run_task_below:
  assumes "sessions st stream_sid = Some session"
    and "pending_samples session < MIN_COMMIT_SAMPLES"
  shows "\<exists>session'. sessions (run_task st t) stream_sid = Some session' \<and>
            websocket session' = websocket session \<and>
            audio_buffer session' = audio_buffer session \<and>
            pending_samples session' = pending_samples session \<and>
            length (loop_tasks (run_task st t)) = length (loop_tasks st)"
proof (cases "task_done (loop_tasks st) t")
  case True
  with assms show ?thesis by (simp add: run_task_def)
next
  case False
  obtain sid state where tk: "loop_tasks st ! t = (sid, state)"
    by (cases "loop_tasks st ! t")
  show ?thesis
  proof (cases "state = TaskCreated \<or> \<not> task_started state")
    case True
    with False tk assms show ?thesis
      by (auto simp: run_task_def Let_def)
  next
    case started: False
    show ?thesis
    proof (cases "sessions st sid")
      case None
      with False tk assms started show ?thesis
        by (auto simp: run_task_def Let_def)
    next
      case (Some other)
      show ?thesis
      proof (cases "sid = stream_sid")
        case True
        with Some assms have "other = session" by simp
        with False tk assms Some True started show ?thesis
          by (simp add: run_task_def Let_def flush_below_threshold)
      next
        case neq: False
        with False tk assms Some started show ?thesis
          by (simp add: run_task_def Let_def)
      qed
    qed
  qed
qed

lemma run_actions_below:
  "sessions st stream_sid = Some session \<Longrightarrow>
   pending_samples session + total_samples acts < MIN_COMMIT_SAMPLES \<Longrightarrow>
   \<exists>session'. sessions (run_actions st now stream_sid acts) stream_sid = Some session' \<and>
      websocket session' = websocket session \<and>
      audio_buffer session' = audio_buffer session @ accepted_chunks acts \<and>
      pending_samples session' = pending_samples session + total_samples acts \<and>
      length (loop_tasks (run_actions st now stream_sid acts)) = length (loop_tasks st)"
proof (induction acts arbitrary: st session rule: total_samples.induct)
  case 1
  then show ?case by simp
next
  case (2 c acts)
  let ?s1 = "session\<lparr>audio_buffer := audio_buffer session @ (if decodable c then [c] else []),
                        pending_samples := pending_samples session + chunk_samples c\<rparr>"
  let ?st1 = "snd (send_audio_chunk st now stream_sid c)"
  from "2.prems" total_samples_nonneg [of acts]
  have small: "pending_samples session + chunk_samples c < MIN_COMMIT_SAMPLES" by simp
  from send_audio_chunk_below [OF "2.prems"(1) small]
  have st1: "?st1 = st\<lparr>sessions := (sessions st)(stream_sid \<mapsto> ?s1)\<rparr>" .
  then have reg: "sessions ?st1 stream_sid = Some ?s1" by simp
  from "2.prems"(2) have bound: "pending_samples ?s1 + total_samples acts < MIN_COMMIT_SAMPLES"
    by simp
  from "2.IH" [OF reg bound] st1 show ?case by auto
next
  case (3 t acts)
  from "3.prems" total_samples_nonneg [of acts]
  have small: "pending_samples session < MIN_COMMIT_SAMPLES" by simp
  from run_task_below [OF "3.prems"(1) small, of t]
  obtain s1 where s1: "sessions (run_task st t) stream_sid = Some s1"
    "websocket s1 = websocket session" "audio_buffer s1 = audio_buffer session"
    "pending_samples s1 = pending_samples session"
    "length (loop_tasks (run_task st t)) = length (loop_tasks st)"
    by blast
  from "3.prems"(2) s1 have bound: "pending_samples s1 + total_samples acts < MIN_COMMIT_SAMPLES"
    by simp
  from "3.IH" [OF s1(1) bound] s1 show ?case by auto
qed

text \<open>
  Claim C2. Take a registered session and any sequence of \<^verbatim>\<open>send_audio_chunk\<close> calls for
  its stream, with the event loop free to resume any flush task in between. If the
  session's sample count with all the samples of the chunks added stays below
  \<^verbatim>\<open>MIN_COMMIT_SAMPLES\<close>, then no task is created (no flush is scheduled), the connection
  is as before (nothing is sent), and the buffer holds every accepted chunk (nothing was
  flushed). And \<^verbatim>\<open>_flush_audio_buffer\<close> on a session below the threshold returns at once:
  same session, nothing sent.
\<close>

theorem below_threshold_never_flushes:
  "(sessions st stream_sid = Some session \<and>
    pending_samples session + total_samples acts < MIN_COMMIT_SAMPLES \<longrightarrow>
    (\<exists>session'. sessions (run_actions st now stream_sid acts) stream_sid = Some session' \<and>
      websocket session' = websocket session \<and>
      audio_buffer session' = audio_buffer session @ accepted_chunks acts \<and>
      pending_samples session' = pending_samples session + total_samples acts \<and>
      length (loop_tasks (run_actions st now stream_sid acts)) = length (loop_tasks st))) \<and>
   (pending_samples session < MIN_COMMIT_SAMPLES \<longrightarrow>
      flush_audio_buffer session = (None, session))"
  using run_actions_below [of st stream_sid session acts now] flush_below_threshold [of session]
  by blast

text \<open>
  The theorem on a fresh session that receives two chunks of one sample each, a timer
  in between: 2 samples, no task, nothing sent.
\<close>

theorem below_threshold_never_flushes_witness:
  "sessions (example_bridge (fresh_session live_socket)) ''CA123'' =
     Some (fresh_session live_socket) \<and>
   pending_samples (fresh_session live_socket) +
     total_samples [Chunk ''AAAA'', Timer 0, Chunk ''AQID''] < MIN_COMMIT_SAMPLES \<and>
   (\<exists>session'.
      sessions (run_actions (example_bridge (fresh_session live_socket)) 7 ''CA123''
        [Chunk ''AAAA'', Timer 0, Chunk ''AQID'']) ''CA123'' = Some session' \<and>
      websocket session' = live_socket \<and>
      audio_buffer session' = [''AAAA'', ''AQID''] \<and>
      pending_samples session' = 2 \<and>
      length (loop_tasks (run_actions (example_bridge (fresh_session live_socket)) 7
        ''CA123'' [Chunk ''AAAA'', Timer 0, Chunk ''AQID''])) = 0) \<and>
   flush_audio_buffer (fresh_session live_socket) = (None, fresh_session live_socket)"
  using below_threshold_never_flushes [of "example_bridge (fresh_session live_socket)"
    "''CA123''" "fresh_session live_socket"
    "[Chunk ''AAAA'', Timer 0, Chunk ''AQID'']" 7]
  by (simp add: example_bridge_def fresh_session_def MIN_COMMIT_SAMPLES_def
        chunk_samples_def decodable_def dec_AAAA dec_AQID)


section \<open>Teardown\<close>

lemma close_session_pops: "sessions (snd (close_session st stream_sid)) stream_sid = None"
  by (auto simp: close_session_def split: option.splits prod.splits)

text \<open>
  Claim C5, as the code has it. Whatever \<^verbatim>\<open>close_session\<close> does, after
  \<^verbatim>\<open>terminate_session\<close> the stream id is in none of the registries: not in the session
  map, not in the Twilio connections, not in the audio configurations, not in the
  conversation contexts. But \<^verbatim>\<open>terminate_session\<close> catches nothing: it raises to its
  caller exactly what \<^verbatim>\<open>close_session\<close> raised, after the cleanup.
\<close>

theorem terminate_cleans_up_and_reraises:
  "sessions (snd (terminate_session st stream_sid)) stream_sid = None \<and>
   twilio_connections (snd (terminate_session st stream_sid)) stream_sid = None \<and>
   stream_audio_config (snd (terminate_session st stream_sid)) stream_sid = None \<and>
   session_context (snd (terminate_session st stream_sid)) stream_sid = None \<and>
   fst (terminate_session st stream_sid) = fst (close_session st stream_sid)"
proof -
  obtain r st1 where c: "close_session st stream_sid = (r, st1)"
    by (cases "close_session st stream_sid")
  have "sessions st1 stream_sid = None"
    using close_session_pops [of st stream_sid] c by simp
  with c show ?thesis
    by (simp add: terminate_session_def clear_def)
qed

text \<open>The theorem on a registered stream whose AI connection raises when it is closed.\<close>

theorem terminate_cleans_up_and_reraises_witness:
  "sessions (example_bridge (fresh_session stubborn_socket)) ''CA123'' \<noteq> None \<and>
   sessions (snd (terminate_session (example_bridge (fresh_session stubborn_socket))
     ''CA123'')) ''CA123'' = None \<and>
   twilio_connections (snd (terminate_session (example_bridge (fresh_session stubborn_socket))
     ''CA123'')) ''CA123'' = None \<and>
   stream_audio_config (snd (terminate_session (example_bridge (fresh_session stubborn_socket))
     ''CA123'')) ''CA123'' = None \<and>
   session_context (snd (terminate_session (example_bridge (fresh_session stubborn_socket))
     ''CA123'')) ''CA123'' = None"
  using terminate_cleans_up_and_reraises [of "example_bridge (fresh_session stubborn_socket)"
    "''CA123''"]
  by (simp add: example_bridge_def)

text \<open>
  Claim C5 as stated fails where it says that the error is caught and does not reach the
  caller: here \<^verbatim>\<open>websocket.close()\<close> raises, so \<^verbatim>\<open>close_session\<close> raises, and
  \<^verbatim>\<open>terminate_session\<close> raises the same exception.
\<close>

theorem terminate_propagates_close_error:
  "fst (close_session (example_bridge (fresh_session stubborn_socket)) ''CA123'') =
     Some RuntimeError \<and>
   fst (terminate_session (example_bridge (fresh_session stubborn_socket)) ''CA123'') =
     Some RuntimeError"
  by (simp add: terminate_session_def close_session_def close_popped_def sock_close_def
        example_bridge_def fresh_session_def stubborn_socket_def MIN_COMMIT_SAMPLES_def
        Let_def)

text \<open>
  Claim C6. After a first \<^verbatim>\<open>terminate_session\<close>, whether it returned or raised, a second
  one for the same stream id returns normally and leaves the whole state as it is: the
  session map, the registries, the contexts and the tasks.
\<close>

theorem terminate_twice_is_noop:
  "terminate_session (snd (terminate_session st stream_sid)) stream_sid =
     (None, snd (terminate_session st stream_sid))"
proof -
  obtain r st1 where c: "close_session st stream_sid = (r, st1)"
    by (cases "close_session st stream_sid")
  have p: "sessions st1 stream_sid = None"
    using close_session_pops [of st stream_sid] c by simp
  let ?st2 = "snd (terminate_session st stream_sid)"
  have s2: "sessions ?st2 stream_sid = None" using p c
    by (simp add: terminate_session_def clear_def)
  then have c2: "close_session ?st2 stream_sid = (None, ?st2)"
    by (simp add: close_session_def)
  show ?thesis
    unfolding terminate_session_def [of ?st2] c2
    using c by (simp add: terminate_session_def clear_def)
qed

theorem terminate_twice_is_noop_witness:
  "sessions (example_bridge (fresh_session live_socket)) ''CA123'' \<noteq> None \<and>
   fst (terminate_session (snd (terminate_session (example_bridge (fresh_session live_socket))
     ''CA123'')) ''CA123'') = None \<and>
   snd (terminate_session (snd (terminate_session (example_bridge (fresh_session live_socket))
     ''CA123'')) ''CA123'') =
   snd (terminate_session (example_bridge (fresh_session live_socket)) ''CA123'')"
  using terminate_twice_is_noop [of "example_bridge (fresh_session live_socket)" "''CA123''"]
  by (simp add: example_bridge_def)


section \<open>Unknown streams and the audio configuration\<close>

text \<open>
  Claim C9. For a stream id that the registry an operation looks into does not hold,
  \<^verbatim>\<open>send_audio_chunk\<close> (the session map), \<^verbatim>\<open>forward_media_chunk\<close> and
  \<^verbatim>\<open>configure_stream_audio\<close> (the audio configurations) and \<^verbatim>\<open>send_audio_to_twilio\<close> (the
  Twilio connections) return normally and leave the whole state, sockets included, as
  it is.
\<close>

theorem unknown_stream_is_noop:
  "(sessions st stream_sid = None \<longrightarrow>
      send_audio_chunk st now stream_sid chunk = (None, st)) \<and>
   (stream_audio_config st stream_sid = None \<longrightarrow>
      forward_media_chunk ratecv st now stream_sid chunk = (None, st) \<and>
      configure_stream_audio st stream_sid enc rate = st) \<and>
   (twilio_connections st stream_sid = None \<longrightarrow>
      send_audio_to_twilio ratecv st stream_sid chunk = (None, st))"
  by (simp add: send_audio_chunk_def forward_media_chunk_def configure_stream_audio_def
        send_audio_to_twilio_def)

theorem unknown_stream_is_noop_witness:
  "sessions (example_bridge (fresh_session live_socket)) ''CA999'' = None \<and>
   stream_audio_config (example_bridge (fresh_session live_socket)) ''CA999'' = None \<and>
   twilio_connections (example_bridge (fresh_session live_socket)) ''CA999'' = None \<and>
   send_audio_chunk (example_bridge (fresh_session live_socket)) 7 ''CA999'' ''AAAA'' =
     (None, example_bridge (fresh_session live_socket)) \<and>
   forward_media_chunk (\<lambda>fragment inrate outrate. Inr fragment)
       (example_bridge (fresh_session live_socket)) 7 ''CA999'' ''AAAA'' =
     (None, example_bridge (fresh_session live_socket)) \<and>
   configure_stream_audio (example_bridge (fresh_session live_socket)) ''CA999''
       (Some ''audio/x-alaw'') (Some 16000) =
     example_bridge (fresh_session live_socket) \<and>
   send_audio_to_twilio (\<lambda>fragment inrate outrate. Inr fragment)
       (example_bridge (fresh_session live_socket)) ''CA999'' ''AAAA'' =
     (None, example_bridge (fresh_session live_socket))"
  using unknown_stream_is_noop [of "example_bridge (fresh_session live_socket)" "''CA999''"
    7 "''AAAA''" "\<lambda>fragment inrate outrate. Inr fragment" "Some ''audio/x-alaw''" "Some 16000"]
  by (simp add: example_bridge_def)

text \<open>
  Claim C10. \<^verbatim>\<open>register_stream\<close> stores \<^verbatim>\<open>audio/x-mulaw\<close> and 8000. For a registered stream
  \<^verbatim>\<open>configure_stream_audio\<close> replaces the encoding only by a truthy one (not \<^verbatim>\<open>None\<close>, not
  empty) and the sample rate only by a truthy one (not \<^verbatim>\<open>None\<close>, not 0), and touches
  nothing else; so a stored sample rate that is not 0 is never replaced by 0.
\<close>

theorem configure_updates_truthy_fields_only:
  "stream_audio_config (register_stream st stream_sid ws) stream_sid =
     Some \<lparr>encoding = ''audio/x-mulaw'', sample_rate = 8000\<rparr> \<and>
   (stream_audio_config st stream_sid = Some cfg \<longrightarrow>
      configure_stream_audio st stream_sid enc rate =
        st\<lparr>stream_audio_config := (stream_audio_config st)(stream_sid \<mapsto>
          cfg\<lparr>encoding := (if py_truthy_str enc then the enc else encoding cfg),
              sample_rate := (if py_truthy_int rate then the rate else sample_rate cfg)\<rparr>)\<rparr> \<and>
      (sample_rate cfg \<noteq> 0 \<longrightarrow>
         (\<forall>cfg'. stream_audio_config (configure_stream_audio st stream_sid enc rate) stream_sid =
                   Some cfg' \<longrightarrow> sample_rate cfg' \<noteq> 0)))"
  by (cases enc; cases rate)
     (auto simp: register_stream_def configure_stream_audio_def py_truthy_str_def
        py_truthy_int_def Let_def)

text \<open>
  The theorem on a freshly registered stream configured with an empty encoding and the
  rate 0: the defaults stay.
\<close>

theorem configure_updates_truthy_fields_only_witness:
  "stream_audio_config
     (configure_stream_audio
        (register_stream (example_bridge (fresh_session live_socket)) ''CA777'' live_socket)
        ''CA777'' (Some []) (Some 0)) ''CA777'' =
     Some \<lparr>encoding = ''audio/x-mulaw'', sample_rate = 8000\<rparr>"
  using configure_updates_truthy_fields_only
    [of "register_stream (example_bridge (fresh_session live_socket)) ''CA777'' live_socket"
      "''CA777''" live_socket "\<lparr>encoding = ''audio/x-mulaw'', sample_rate = 8000\<rparr>"
      "Some []" "Some 0"]
  by (simp add: register_stream_def py_truthy_str_def py_truthy_int_def)


section \<open>The receive loop\<close>

lemma wellformed_log: "wellformed_response_done payload \<Longrightarrow> log_response_done payload = None"
proof -
  assume w: "wellformed_response_done payload"
  then obtain response_data where r: "py_get payload ''response'' (JObj []) = Inr response_data"
    and h: "has_output_list response_data"
    by (auto simp: wellformed_response_done_def split: sum.splits)
  from h obtain kvs where k: "response_data = JObj kvs"
    by (cases response_data) simp_all
  show ?thesis
  proof (cases "map_of kvs ''output''")
    case None
    with r k show ?thesis by (simp add: log_response_done_def py_get_def)
  next
    case (Some out)
    with h k have "is_object_list out" by simp
    then obtain items where "out = JArr items" "list_all is_JObj items"
      by (cases out) simp_all
    with r k Some show ?thesis by (simp add: log_response_done_def py_get_def)
  qed
qed

lemma persist_transcript_session:
  "sessions (persist_transcript st stream_sid session) stream_sid =
     Some (session\<lparr>transcript_buffer := []\<rparr>)"
  by (cases "transcript_buffer session = []")
     (simp_all add: persist_transcript_def put_session_def update_context_def Let_def)

lemma persist_transcript_context:
  "session_context (persist_transcript st stream_sid session) =
     (if transcript_buffer session \<noteq> []
      then (session_context st)(stream_sid \<mapsto>
             (case session_context st stream_sid of None \<Rightarrow> Map.empty | Some d \<Rightarrow> d)
               (''last_ai_response'' \<mapsto> transcript_buffer session))
      else session_context st)"
  by (simp add: persist_transcript_def put_session_def update_context_def Let_def)

text \<open>
  What the two terminal branches do when they reach their end. For a registered session,
  a \<^verbatim>\<open>response.completed\<close> event, and a \<^verbatim>\<open>response.done\<close> event whose members have the
  shape that the debug message of its branch reads, return normally, set
  \<open>is_waiting_response\<close> to false and empty the transcript accumulator; a non-empty
  accumulator is stored in the conversation context of the stream id under
  \<^verbatim>\<open>last_ai_response\<close>, an empty one leaves the context store unchanged. Whatever the
  payload, both types leave \<open>is_waiting_response\<close> false.
\<close>

lemma shaped_terminal_event_persists_transcript:
  assumes "sessions st stream_sid = Some session"
  shows "(py_get payload ''type'' JNull = Inr (JStr ''response.completed'') \<or>
          py_get payload ''type'' JNull = Inr (JStr ''response.done'') \<and>
            wellformed_response_done payload \<longrightarrow>
      fst (process_event ratecv st stream_sid payload) = None \<and>
      sessions (snd (process_event ratecv st stream_sid payload)) stream_sid =
        Some (session\<lparr>is_waiting_response := False, transcript_buffer := []\<rparr>) \<and>
      session_context (snd (process_event ratecv st stream_sid payload)) =
        (if transcript_buffer session \<noteq> []
         then (session_context st)(stream_sid \<mapsto>
                (case session_context st stream_sid of None \<Rightarrow> Map.empty | Some d \<Rightarrow> d)
                  (''last_ai_response'' \<mapsto> transcript_buffer session))
         else session_context st)) \<and>
   (py_get payload ''type'' JNull = Inr (JStr ''response.done'') \<or>
    py_get payload ''type'' JNull = Inr (JStr ''response.completed'') \<longrightarrow>
      (\<exists>session'. sessions (snd (process_event ratecv st stream_sid payload)) stream_sid =
          Some session' \<and> \<not> is_waiting_response session'))"
proof (intro conjI impI)
  assume t: "py_get payload ''type'' JNull = Inr (JStr ''response.completed'') \<or>
          py_get payload ''type'' JNull = Inr (JStr ''response.done'') \<and>
            wellformed_response_done payload"
  with assms show "fst (process_event ratecv st stream_sid payload) = None"
    by (auto simp: process_event_def wellformed_log)
  from t assms
  show "sessions (snd (process_event ratecv st stream_sid payload)) stream_sid =
        Some (session\<lparr>is_waiting_response := False, transcript_buffer := []\<rparr>)"
    by (auto simp: process_event_def wellformed_log persist_transcript_session)
  from t assms
  show "session_context (snd (process_event ratecv st stream_sid payload)) =
        (if transcript_buffer session \<noteq> []
         then (session_context st)(stream_sid \<mapsto>
                (case session_context st stream_sid of None \<Rightarrow> Map.empty | Some d \<Rightarrow> d)
                  (''last_ai_response'' \<mapsto> transcript_buffer session))
         else session_context st)"
    by (auto simp: process_event_def wellformed_log persist_transcript_context)
next
  assume "py_get payload ''type'' JNull = Inr (JStr ''response.done'') \<or>
    py_get payload ''type'' JNull = Inr (JStr ''response.completed'')"
  with assms
  show "\<exists>session'. sessions (snd (process_event ratecv st stream_sid payload)) stream_sid =
          Some session' \<and> \<not> is_waiting_response session'"
    by (auto simp: process_event_def persist_transcript_session put_session_def Let_def
          split: option.splits)
qed

text \<open>
  Claim C3 fails on the code for \<^verbatim>\<open>response.done\<close>. The session has gathered the
  transcript \<^verbatim>\<open>annyeong\<close> and the event is
  \<^verbatim>\<open>{"type": "response.done", "response": null}\<close>. The branch resets
  \<open>is_waiting_response\<close>, then builds its debug message, and \<^verbatim>\<open>response_data.get\<close> raises
  \<^verbatim>\<open>AttributeError\<close> on \<^verbatim>\<open>None\<close> before the transcript is looked at: the transcript stays
  in the accumulator and nothing is stored in the context of the stream. The exception
  ends the receive loop, so an event that follows is not processed either. The branch of
  \<^verbatim>\<open>response.completed\<close> stores the transcript at the same payload.
\<close>

theorem response_done_null_skips_persist:
  "sessions (example_bridge talking_session) ''CA123'' = Some talking_session \<and>
   transcript_buffer talking_session = ''annyeong'' \<and>
   process_event (\<lambda>fragment inrate outrate. Inr fragment) (example_bridge talking_session)
       ''CA123'' null_done_event =
     (Some AttributeError,
      put_session (example_bridge talking_session) ''CA123''
        (talking_session\<lparr>is_waiting_response := False\<rparr>)) \<and>
   map_option transcript_buffer
     (sessions (snd (process_event (\<lambda>fragment inrate outrate. Inr fragment)
        (example_bridge talking_session) ''CA123'' null_done_event)) ''CA123'') =
     Some ''annyeong'' \<and>
   session_context (snd (process_event (\<lambda>fragment inrate outrate. Inr fragment)
       (example_bridge talking_session) ''CA123'' null_done_event)) ''CA123'' =
     Some Map.empty \<and>
   receive_and_forward (\<lambda>fragment inrate outrate. Inr fragment)
       (example_bridge talking_session) ''CA123''
       [Some null_done_event, Some null_completed_event] =
     (None,
      put_session (example_bridge talking_session) ''CA123''
        (talking_session\<lparr>is_waiting_response := False\<rparr>)) \<and>
   session_context (snd (process_event (\<lambda>fragment inrate outrate. Inr fragment)
       (example_bridge talking_session) ''CA123'' null_completed_event)) ''CA123'' =
     Some [''last_ai_response'' \<mapsto> ''annyeong'']"
proof -
  have reg: "sessions (example_bridge talking_session) ''CA123'' = Some talking_session"
    by (simp add: example_bridge_def)
  have tb: "transcript_buffer talking_session = ''annyeong''"
    by (simp add: talking_session_def)
  have lg: "log_response_done null_done_event = Some AttributeError"
    by (simp add: log_response_done_def null_done_event_def py_get_def)
  have ty: "py_get null_done_event ''type'' JNull = Inr (JStr ''response.done'')"
    by (simp add: null_done_event_def py_get_def)
  have pe: "process_event (\<lambda>fragment inrate outrate. Inr fragment)
       (example_bridge talking_session) ''CA123'' null_done_event =
     (Some AttributeError,
      put_session (example_bridge talking_session) ''CA123''
        (talking_session\<lparr>is_waiting_response := False\<rparr>))"
    by (simp add: process_event_def reg ty lg)
  have tc: "py_get null_completed_event ''type'' JNull = Inr (JStr ''response.completed'')"
    by (simp add: null_completed_event_def py_get_def)
  have pc: "session_context (snd (process_event (\<lambda>fragment inrate outrate. Inr fragment)
       (example_bridge talking_session) ''CA123'' null_completed_event)) ''CA123'' =
     Some [''last_ai_response'' \<mapsto> ''annyeong'']"
    by (simp add: process_event_def reg tc persist_transcript_context tb)
       (simp add: example_bridge_def)
  have rf: "receive_and_forward (\<lambda>fragment inrate outrate. Inr fragment)
       (example_bridge talking_session) ''CA123''
       [Some null_done_event, Some null_completed_event] =
     (None,
      put_session (example_bridge talking_session) ''CA123''
        (talking_session\<lparr>is_waiting_response := False\<rparr>))"
    by (simp add: receive_and_forward_def reg pe)
  from reg tb pe pc rf show ?thesis
    by (simp add: put_session_def example_bridge_def talking_session_def)
qed

text \<open>
  Claim C4. An event whose \<^verbatim>\<open>type\<close> is none of the fifteen types the loop has a branch
  for (a type that is missing or not a string included) returns normally and leaves the
  whole state as it is: every field of every session, the registries, the contexts, the
  tasks and what the sockets have been given. A payload that is not an object has no
  \<^verbatim>\<open>type\<close> at all: it ends the loop with an exception, the state again unchanged.
\<close>

theorem unrecognized_event_ignored:
  assumes "\<forall>t \<in> set recognized_event_types. py_get payload ''type'' JNull \<noteq> Inr (JStr t)"
  shows "snd (process_event ratecv st stream_sid payload) = st \<and>
         (is_JObj payload \<longrightarrow> process_event ratecv st stream_sid payload = (None, st))"
proof (cases "sessions st stream_sid")
  case None
  then show ?thesis by (simp add: process_event_def)
next
  case (Some session)
  show ?thesis
  proof (cases "py_get payload ''type'' JNull")
    case (Inl e)
    then have "\<not> is_JObj payload"
      by (cases payload) (simp_all add: py_get_def)
    with Some Inl show ?thesis by (simp add: process_event_def)
  next
    case (Inr event_type)
    with assms have "\<forall>t \<in> set recognized_event_types. event_type \<noteq> JStr t" by simp
    with Some Inr show ?thesis
      by (simp add: process_event_def recognized_event_types_def)
  qed
qed

text \<open>The theorem at a \<^verbatim>\<open>rate_limits.updated\<close> event.\<close>

theorem unrecognized_event_ignored_witness:
  "py_get unknown_event ''type'' JNull = Inr (JStr ''rate_limits.updated'') \<and>
   ''rate_limits.updated'' \<notin> set recognized_event_types \<and>
   process_event (\<lambda>fragment inrate outrate. Inr fragment)
     (example_bridge (fresh_session live_socket)) ''CA123'' unknown_event =
     (None, example_bridge (fresh_session live_socket))"
proof -
  have h: "\<forall>t \<in> set recognized_event_types. py_get unknown_event ''type'' JNull \<noteq> Inr (JStr t)"
    by (simp add: recognized_event_types_def unknown_event_def py_get_def)
  have o: "is_JObj unknown_event" by (simp add: unknown_event_def)
  have t: "py_get unknown_event ''type'' JNull = Inr (JStr ''rate_limits.updated'')"
    by (simp add: unknown_event_def py_get_def)
  have n: "''rate_limits.updated'' \<notin> set recognized_event_types"
    by (simp add: recognized_event_types_def)
  from unrecognized_event_ignored [OF h, of "\<lambda>fragment inrate outrate. Inr fragment"
    "example_bridge (fresh_session live_socket)" "''CA123''"] o t n
  show ?thesis by simp
qed


section \<open>The audio conversions\<close>

text \<open>
  Claim C7. For every byte buffer (handed over base64-encoded) and every encoding tag
  outside the four supported ones, \<^verbatim>\<open>convert_audio_to_pcm16\<close> raises the \<^verbatim>\<open>ValueError\<close> for
  an unsupported encoding, whatever the rates are and whatever \<^verbatim>\<open>audioop.ratecv\<close> would
  do: no rate conversion takes place. When the stream's stored encoding is such a tag,
  \<^verbatim>\<open>forward_media_chunk\<close> returns normally on every chunk and leaves the whole state
  unchanged: nothing is buffered, scheduled or sent. For each of the four supported tags
  the encoding dispatch yields PCM bytes and does not raise.
\<close>

theorem unsupported_encoding_raises:
  "(enc \<notin> supported_encodings \<longrightarrow>
      convert_audio_to_pcm16 ratecv (b64encode raw_bytes) enc src tgt =
        Inl (UnsupportedEncoding enc) \<and>
      (stream_audio_config st stream_sid = Some cfg \<and> encoding cfg = enc \<longrightarrow>
         forward_media_chunk ratecv st now stream_sid chunk = (None, st))) \<and>
   (enc \<in> supported_encodings \<longrightarrow>
      (\<exists>pcm16_bytes. decode_by_encoding enc raw_bytes = Inr pcm16_bytes))"
proof (intro conjI impI)
  assume u: "enc \<notin> supported_encodings"
  then show "convert_audio_to_pcm16 ratecv (b64encode raw_bytes) enc src tgt =
        Inl (UnsupportedEncoding enc)"
    by (simp add: convert_audio_to_pcm16_def b64decode_b64encode decode_by_encoding_def
          supported_encodings_def)
next
  assume u: "enc \<notin> supported_encodings"
    and c: "stream_audio_config st stream_sid = Some cfg \<and> encoding cfg = enc"
  from unsupported_convert_raises [OF u, of ratecv chunk "sample_rate cfg" 16000]
  obtain e where "convert_audio_to_pcm16 ratecv chunk enc (sample_rate cfg) 16000 = Inl e"
    "is_Exception e" by blast
  with c show "forward_media_chunk ratecv st now stream_sid chunk = (None, st)"
    by (simp add: forward_media_chunk_def)
next
  assume "enc \<in> supported_encodings"
  then show "\<exists>pcm16_bytes. decode_by_encoding enc raw_bytes = Inr pcm16_bytes"
    by (auto simp: decode_by_encoding_def supported_encodings_def)
qed


text \<open>
  The theorem at the tag \<^verbatim>\<open>audio/ogg\<close>, with a rate conversion that would raise if it
  were called, and at the supported tag \<^verbatim>\<open>audio/x-alaw\<close>.
\<close>

theorem unsupported_encoding_raises_witness:
  "''audio/ogg'' \<notin> supported_encodings \<and>
   convert_audio_to_pcm16 (\<lambda>fragment inrate outrate. Inl AudioopError)
     (b64encode [1, 2, 3]) ''audio/ogg'' 8000 16000 = Inl (UnsupportedEncoding ''audio/ogg'') \<and>
   forward_media_chunk (\<lambda>fragment inrate outrate. Inl AudioopError) ogg_bridge 7 ''CA123''
     ''AQID'' = (None, ogg_bridge) \<and>
   ''audio/x-alaw'' \<in> supported_encodings \<and>
   (\<exists>pcm16_bytes. decode_by_encoding ''audio/x-alaw'' [1, 2, 3] = Inr pcm16_bytes)"
proof -
  have u: "''audio/ogg'' \<notin> supported_encodings"
    by (simp add: supported_encodings_def)
  have a: "''audio/x-alaw'' \<in> supported_encodings"
    by (simp add: supported_encodings_def)
  have c: "stream_audio_config ogg_bridge ''CA123'' =
      Some \<lparr>encoding = ''audio/ogg'', sample_rate = 8000\<rparr>"
    by (simp add: ogg_bridge_def)
  from unsupported_encoding_raises [of "''audio/ogg''"
      "\<lambda>fragment inrate outrate. Inl AudioopError" "[1, 2, 3]" 8000 16000 ogg_bridge
      "''CA123''" "\<lparr>encoding = ''audio/ogg'', sample_rate = 8000\<rparr>" 7 "''AQID''"]
    unsupported_encoding_raises [of "''audio/x-alaw''" _ "[1, 2, 3]"] u a c
  show ?thesis by simp
qed

text \<open>
  Claim C8. For every \<open>\<mu>\<close>-law byte sequence \<open>x\<close>, handed over base64-encoded (as
  \<^verbatim>\<open>b64encode x\<close> or as any other chunk that decodes to \<open>x\<close>), and every rate \<open>r\<close> used as
  source and as target, \<^verbatim>\<open>convert_audio_to_pcm16\<close> returns base64 text that decodes to
  the PCM16 bytes of \<open>x\<close>, whose samples are the levels of the bytes of \<open>x\<close>, and
  \<^verbatim>\<open>convert_pcm16_to_mulaw\<close> turns that text into base64 text that decodes to a \<open>\<mu>\<close>-law
  sequence of the same length whose every byte stands for the same PCM16 level as the
  byte of \<open>x\<close> at its place: the quantization error is zero. The bytes themselves are
  those of \<open>x\<close>, but for \<^verbatim>\<open>0x7F\<close> (negative zero), which comes back as \<^verbatim>\<open>0xFF\<close> (positive
  zero). Neither result depends on \<^verbatim>\<open>audioop.ratecv\<close>: with equal rates it is not called.
\<close>

theorem mulaw_roundtrip:
  "b64decode (b64encode x) = Inr x \<and>
   (\<exists>pcm16_b64 mulaw_b64.
      convert_audio_to_pcm16 ratecv (b64encode x) ''audio/x-mulaw'' r r = Inr pcm16_b64 \<and>
      b64decode pcm16_b64 = Inr (ulaw2lin x) \<and>
      convert_pcm16_to_mulaw ratecv' pcm16_b64 r r = Inr mulaw_b64 \<and>
      b64decode mulaw_b64 = Inr (mulaw_requantize x)) \<and>
   (b64decode chunk = Inr x \<longrightarrow>
      convert_audio_to_pcm16 ratecv chunk ''audio/x-mulaw'' r r =
        Inr (b64encode (ulaw2lin x))) \<and>
   convert_audio_to_pcm16 ratecv (b64encode x) ''audio/x-mulaw'' r r =
     Inr (b64encode (ulaw2lin x)) \<and>
   convert_pcm16_to_mulaw ratecv' (b64encode (ulaw2lin x)) r r =
     Inr (b64encode (mulaw_requantize x)) \<and>
   samples16 (ulaw2lin x) = map ulaw2linear16 x \<and>
   length (mulaw_requantize x) = length x \<and>
   map ulaw2linear16 (mulaw_requantize x) = map ulaw2linear16 x \<and>
   (127 \<notin> set x \<longrightarrow> mulaw_requantize x = x)"
proof -
  have to_pcm: "b64decode chunk = Inr x \<longrightarrow>
      convert_audio_to_pcm16 ratecv chunk ''audio/x-mulaw'' r r =
        Inr (b64encode (ulaw2lin x))"
    by (simp add: convert_audio_to_pcm16_def decode_by_encoding_def)
  have to_pcm': "convert_audio_to_pcm16 ratecv (b64encode x) ''audio/x-mulaw'' r r =
     Inr (b64encode (ulaw2lin x))"
    by (simp add: convert_audio_to_pcm16_def b64decode_b64encode decode_by_encoding_def)
  have to_mulaw: "convert_pcm16_to_mulaw ratecv' (b64encode (ulaw2lin x)) r r =
     Inr (b64encode (mulaw_requantize x))"
    by (simp add: convert_pcm16_to_mulaw_def b64decode_b64encode lin2ulaw_ulaw2lin)
  have decoded: "\<exists>pcm16_b64 mulaw_b64.
      convert_audio_to_pcm16 ratecv (b64encode x) ''audio/x-mulaw'' r r = Inr pcm16_b64 \<and>
      b64decode pcm16_b64 = Inr (ulaw2lin x) \<and>
      convert_pcm16_to_mulaw ratecv' pcm16_b64 r r = Inr mulaw_b64 \<and>
      b64decode mulaw_b64 = Inr (mulaw_requantize x)"
    using to_pcm' to_mulaw b64decode_b64encode by blast
  have len: "length (mulaw_requantize x) = length x"
    by (simp add: mulaw_requantize_def)
  have level: "map ulaw2linear16 (mulaw_requantize x) = map ulaw2linear16 x"
    by (simp add: mulaw_requantize_def requantize_same_level comp_def)
  have same: "127 \<notin> set x \<longrightarrow> mulaw_requantize x = x"
    by (induction x) (simp_all add: mulaw_requantize_def)
  from b64decode_b64encode [of x] decoded to_pcm to_pcm' to_mulaw samples16_ulaw2lin [of x]
    len level same
  show ?thesis by (intro conjI)
qed

text \<open>The theorem on three bytes, the negative zero among them, at 8000 Hz.\<close>

theorem mulaw_roundtrip_witness:
  "b64decode (b64encode [0, 127, 200]) = Inr [0, 127, 200] \<and>
   convert_audio_to_pcm16 (\<lambda>fragment inrate outrate. Inl AudioopError)
     (b64encode [0, 127, 200]) ''audio/x-mulaw'' 8000 8000 =
     Inr (b64encode (ulaw2lin [0, 127, 200])) \<and>
   convert_pcm16_to_mulaw (\<lambda>fragment inrate outrate. Inl AudioopError)
     (b64encode (ulaw2lin [0, 127, 200])) 8000 8000 = Inr (b64encode [0, 255, 200]) \<and>
   map ulaw2linear16 [0, 255, 200] = map ulaw2linear16 [0, 127, 200] \<and>
   mulaw_requantize [0, 1, 200] = [0, 1, 200]"
  using mulaw_roundtrip [of "[0, 127, 200]" "\<lambda>fragment inrate outrate. Inl AudioopError" 8000
      "\<lambda>fragment inrate outrate. Inl AudioopError"]
    mulaw_roundtrip [of "[0, 1, 200]"]
  by (simp add: mulaw_requantize_def)

end
